theory Spec2Isabelle
  imports Complex_Main "HOL-Library.Monad_Syntax"
begin

section \<open>JavaScript numbers and the random source\<close>

text \<open>
  JavaScript numbers are modelled as mathematical reals (counters and pixel coordinates,
  which the code only ever moves by whole steps, as \<open>nat\<close> and \<open>int\<close>); the rounding of
  IEEE doubles, and of the 32-bit floats that a tensor holds, is not modelled. A call that
  does not return normally (a \<open>TypeError\<close> is thrown, or a loop never ends) has the value
  \<open>None\<close>.

  \<open>Math.random()\<close> is the only source of nondeterminism of the code. A run is given the
  whole sequence of values that \<open>Math.random()\<close> will return; each call takes the first
  value and leaves the rest.
\<close>

type_synonym rng = "nat \<Rightarrow> real"

definition Math_random :: "rng \<Rightarrow> real \<times> rng" where
  "Math_random r = (r 0, \<lambda>n. r (Suc n))"

definition Math_round :: "real \<Rightarrow> int" where
  "Math_round v = \<lfloor>v + 1 / 2\<rfloor>"

section \<open>game.js: the simulation\<close>

datatype gameState = HOME | PLAYING | GAME_OVER

record tube =
  tube_x :: int
  tube_y :: int

text \<open>An alpha mask \<open>{ mask, w, h }\<close> as built by \<open>buildAlphaMaskFromSprite\<close>.\<close>

record mask =
  mask_bits :: "bool list"
  mask_w :: int
  mask_h :: int

text \<open>
  The fields of \<open>Game\<close> that the simulation changes. The fields assigned once in the
  constructor and never again are constants below. Canvas and sprite drawing are left out.
\<close>

record game =
  birdY :: real
  birdYSpeed :: real
  birdFrame :: nat
  tubes :: "tube list"
  gameState :: gameState
  score :: nat
  groundX :: int
  spriteLoaded :: bool
  birdMasks :: "mask list"
  tubeMask :: "mask option"

definition width :: int where "width = 32"
definition height :: int where "height = 32"
definition birdX :: int where "birdX = 5"
definition birdWidth :: int where "birdWidth = 5"
definition birdHeight :: int where "birdHeight = 3"
definition gravity :: real where "gravity = 1 / 4"
definition tubeWidth :: int where "tubeWidth = 6"
definition tubeGap :: int where "tubeGap = 12"
definition bgLoc_width :: int where "bgLoc_width = 32"
definition groundLoc_width :: int where "groundLoc_width = 35"

definition setTubeY :: "tube \<Rightarrow> rng \<Rightarrow> tube \<times> rng" where
  "setTubeY t r =
     (let gapHalf = real_of_int tubeGap / 2;
          minGapCenter = 4 + gapHalf;
          maxGapCenter = real_of_int height - 1 - 4 - gapHalf;
          (u, r') = Math_random r;
          gapCenter = real_of_int \<lfloor>u * (maxGapCenter - minGapCenter + 1)\<rfloor> + minGapCenter;
          spriteGapCenterOffset = 17 + 6
      in (t\<lparr>tube_y := Math_round (gapCenter - spriteGapCenterOffset)\<rparr>, r'))"

text \<open>\<open>resetTubes\<close>: the loop \<open>for (let i = 0; i < 2; i++)\<close>, unrolled.\<close>

definition resetTubes :: "game \<Rightarrow> rng \<Rightarrow> game \<times> rng" where
  "resetTubes g r =
     (let (t0, r0) = setTubeY \<lparr>tube_x = Math_round (48 + 0 * 19), tube_y = 0\<rparr> r;
          (t1, r1) = setTubeY \<lparr>tube_x = Math_round (48 + 1 * 19), tube_y = 0\<rparr> r0
      in (g\<lparr>tubes := [t0, t1]\<rparr>, r1))"

definition game_reset :: "game \<Rightarrow> rng \<Rightarrow> game \<times> rng" where
  "game_reset g r =
     resetTubes (g\<lparr>birdY := 14, birdYSpeed := 0, score := 0, birdFrame := 0,
                  gameState := PLAYING\<rparr>) r"

definition initializeGame :: "game \<Rightarrow> rng \<Rightarrow> game \<times> rng" where
  "initializeGame g r =
     resetTubes (g\<lparr>birdY := 14, birdYSpeed := 0, score := 0, birdFrame := 0,
                  gameState := HOME\<rparr>) r"

definition jump :: "game \<Rightarrow> game" where
  "jump g =
     (if gameState g = HOME then g\<lparr>gameState := PLAYING, birdYSpeed := - (14 / 10)\<rparr>
      else if gameState g = PLAYING then g\<lparr>birdYSpeed := - (14 / 10)\<rparr>
      else g)"

text \<open>
  The loop over the tubes in \<open>update\<close>: each tube moves one pixel left, re-enters at
  \<open>x = 32\<close> with a new gap once it has left the screen, and scores when it has just been
  passed.
\<close>

fun update_tubes :: "tube list \<Rightarrow> nat \<Rightarrow> rng \<Rightarrow> tube list \<times> nat \<times> rng" where
  "update_tubes [] sc r = ([], sc, r)"
| "update_tubes (t # ts) sc r =
     (let x1 = tube_x t - 1;
          (t1, r1) = (if x1 \<le> - tubeWidth then setTubeY (t\<lparr>tube_x := 32\<rparr>) r
                      else (t\<lparr>tube_x := x1\<rparr>, r));
          sc1 = (if tube_x t1 = birdX - tubeWidth then sc + 1 else sc);
          (ts', sc', r') = update_tubes ts sc1 r1
      in (t1 # ts', sc', r'))"

text \<open>
  \<open>mask[i]\<close>: reading past the end of a JavaScript array gives \<open>undefined\<close>, which is
  falsy.
\<close>

definition mask_at :: "mask \<Rightarrow> int \<Rightarrow> bool" where
  "mask_at m i = (0 \<le> i \<and> nat i < length (mask_bits m) \<and> mask_bits m ! nat i)"

text \<open>
  The narrow phase of \<open>checkCollision\<close> for one tube whose bounding box overlaps the
  bird's: is there a pixel covered by both masks?
\<close>

definition masks_overlap :: "mask \<Rightarrow> mask \<Rightarrow> int \<Rightarrow> tube \<Rightarrow> int \<Rightarrow> int \<Rightarrow> int \<Rightarrow> int \<Rightarrow> bool" where
  "masks_overlap bm tm bY t x0 y0 x1 y1 =
     list_ex (\<lambda>yy.
        list_ex (\<lambda>xx.
           mask_at bm ((xx - birdX) + (yy - bY) * mask_w bm) \<and>
           mask_at tm ((xx - tube_x t) + (yy - tube_y t) * mask_w tm))
        [x0 .. x1 - 1])
     [y0 .. y1 - 1]"

text \<open>
  The loop over the tubes in \<open>checkCollision\<close>. \<open>Some True\<close>: a collision was found.
  \<open>birdMasks[birdFrame]\<close> is \<open>undefined\<close> when the frame has no mask, and reading its
  \<open>w\<close> then throws (\<open>None\<close>); this happens only once a bounding box overlaps.
\<close>

fun collide_tubes :: "mask option \<Rightarrow> mask \<Rightarrow> int \<Rightarrow> tube list \<Rightarrow> bool option" where
  "collide_tubes bmo tm bY [] = Some False"
| "collide_tubes bmo tm bY (t # ts) =
     (let x0 = max birdX (tube_x t);
          y0 = max bY (tube_y t);
          x1 = min (birdX + birdWidth) (tube_x t + mask_w tm);
          y1 = min (bY + birdHeight) (tube_y t + mask_h tm)
      in if x0 \<ge> x1 \<or> y0 \<ge> y1 then collide_tubes bmo tm bY ts
         else (case bmo of
                 None \<Rightarrow> None
               | Some bm \<Rightarrow>
                   if masks_overlap bm tm bY t x0 y0 x1 y1 then Some True
                   else collide_tubes bmo tm bY ts))"

definition checkCollision :: "game \<Rightarrow> game option" where
  "checkCollision g =
     (case tubeMask g of
        None \<Rightarrow> Some g
      | Some tm \<Rightarrow>
          if \<not> spriteLoaded g \<or> length (birdMasks g) = 0 then Some g
          else (case collide_tubes
                       (if birdFrame g < length (birdMasks g)
                        then Some (birdMasks g ! birdFrame g) else None)
                       tm \<lfloor>birdY g\<rfloor> (tubes g) of
                  None \<Rightarrow> None
                | Some hit \<Rightarrow> Some (if hit then g\<lparr>gameState := GAME_OVER\<rparr> else g)))"

definition update :: "game \<Rightarrow> rng \<Rightarrow> (game \<times> rng) option" where
  "update g r =
     (if gameState g = HOME then Some (g\<lparr>birdFrame := (birdFrame g + 1) mod 3\<rparr>, r)
      else if gameState g \<noteq> PLAYING then Some (g, r)
      else
        let g1 = g\<lparr>birdY := birdY g + birdYSpeed g, birdYSpeed := birdYSpeed g + gravity\<rparr>;
            g2 = (if birdY g1 < 0 then g1\<lparr>birdY := 0, birdYSpeed := 0\<rparr> else g1);
            g3 = (if \<lfloor>birdY g2\<rfloor> + birdHeight > height - 1
                  then g2\<lparr>birdY := real_of_int (height - birdHeight - 1),
                          gameState := GAME_OVER\<rparr>
                  else g2);
            (ts, sc, r') = update_tubes (tubes g3) (score g3) r;
            g4 = g3\<lparr>tubes := ts, score := sc\<rparr>
        in case checkCollision g4 of
             None \<Rightarrow> None
           | Some g5 \<Rightarrow>
               let g6 = (if groundX g5 - 1 < bgLoc_width - groundLoc_width
                         then g5\<lparr>groundX := 0\<rparr> else g5\<lparr>groundX := groundX g5 - 1\<rparr>);
                   g7 = g6\<lparr>birdFrame := (birdFrame g6 + 1) mod 3\<rparr>
               in Some (g7, r'))"

text \<open>
  \<open>getClosestTube\<close>: \<open>tubes[0]\<close> is \<open>undefined\<close> for an empty array; the callers read
  its fields, which throws.
\<close>

definition closer :: "tube \<Rightarrow> tube \<Rightarrow> tube" where
  "closer closest t =
     (if tube_x t + tubeWidth > birdX
      then (if tube_x t < tube_x closest \<or> tube_x closest + tubeWidth \<le> birdX
            then t else closest)
      else closest)"

definition getClosestTube :: "game \<Rightarrow> tube option" where
  "getClosestTube g =
     (case tubes g of [] \<Rightarrow> None | t0 # _ \<Rightarrow> Some (foldl closer t0 (tubes g)))"

section \<open>environment.js: the reinforcement-learning interface\<close>

record environment =
  game :: game
  previousScore :: nat
  lastAction :: "nat option"

definition STAY :: nat where "STAY = 0"
definition JUMP :: nat where "JUMP = 1"
definition tubeUpperHeight :: int where "tubeUpperHeight = 17"

text \<open>
  The vertical offset of the gap centre from the bird's centre,
  \<open>(closestTube.y + tubeUpperHeight + tubeGap / 2) - (birdY + birdHeight / 2)\<close>, which
  \<open>getState\<close> and \<open>calculateReward\<close> both compute. The y axis points down: the offset is
  positive when the bird is above the gap centre.
\<close>

definition diffY :: "game \<Rightarrow> tube \<Rightarrow> real" where
  "diffY g c =
     (real_of_int (tube_y c) + real_of_int tubeUpperHeight + real_of_int tubeGap / 2)
       - (birdY g + real_of_int birdHeight / 2)"

definition getState :: "environment \<Rightarrow> real list option" where
  "getState e =
     (case getClosestTube (game e) of
        None \<Rightarrow> None
      | Some c \<Rightarrow>
          Some [birdYSpeed (game e) / 2,
                real_of_int (tube_x c - birdX) / real_of_int width,
                diffY (game e) c / real_of_int height,
                birdY (game e) / real_of_int height])"

definition env_reset :: "environment \<Rightarrow> rng \<Rightarrow> (real list \<times> environment \<times> rng) option" where
  "env_reset e r =
     (let (g, r') = game_reset (game e) r;
          e' = e\<lparr>game := g, previousScore := 0\<rparr>
      in case getState e' of None \<Rightarrow> None | Some s \<Rightarrow> Some (s, e', r'))"

definition calculateReward :: "environment \<Rightarrow> (real \<times> environment) option" where
  "calculateReward e =
     (let (reward1, e1) =
            (if score (game e) > previousScore e
             then (5, e\<lparr>previousScore := score (game e)\<rparr>)
             else (1 / 10, e))
      in if gameState (game e1) = GAME_OVER then
           (case getClosestTube (game e1) of
              None \<Rightarrow> None
            | Some c \<Rightarrow>
                let d = diffY (game e1) c
                in if d > 0 \<and> lastAction e1 = Some JUMP then Some (- 10 - 5, e1)
                   else if d < 0 \<and> lastAction e1 = Some STAY then Some (- 10 - 5, e1)
                   else Some (- 10, e1))
         else
           (case getClosestTube (game e1) of
              None \<Rightarrow> None
            | Some c \<Rightarrow> Some (reward1 - \<bar>diffY (game e1) c\<bar> * (1 / 100), e1)))"

text \<open>The object \<open>{ state, reward, done }\<close> that \<open>step\<close> returns.\<close>

record step_result =
  res_state :: "real list"
  res_reward :: real
  res_done :: bool

definition step :: "environment \<Rightarrow> nat \<Rightarrow> rng \<Rightarrow> (step_result \<times> environment \<times> rng) option" where
  "step e a r =
     (let g1 = (if a = JUMP then jump (game e) else game e);
          e1 = e\<lparr>game := g1, lastAction := Some a\<rparr>
      in case update (game e1) r of
           None \<Rightarrow> None
         | Some (g2, r') \<Rightarrow>
             (case calculateReward (e1\<lparr>game := g2\<rparr>) of
                None \<Rightarrow> None
              | Some (rew, e2) \<Rightarrow>
                  (case getState e2 of
                     None \<Rightarrow> None
                   | Some nextState \<Rightarrow>
                       Some (\<lparr>res_state = nextState, res_reward = rew,
                              res_done = (gameState (game e2) = GAME_OVER)\<rparr>, e2, r'))))"

section \<open>dqn.js: the value model\<close>

text \<open>
  The classes \<open>DQN\<close> and \<open>DDQN\<close> are built on TensorFlow.js, a library outside the
  repository. Of a compiled \<open>tf.Sequential\<close> the model keeps what the classes use: its
  weights (\<open>getWeights\<close>, \<open>setWeights\<close>), the state of its optimiser, and its methods
  \<open>predict\<close> and \<open>fit\<close>, which are parameters. \<open>net_predict\<close> maps the weights and a batch
  of rows to the batch of output rows. \<open>net_fit\<close> is one epoch of training on a batch: it
  changes the weights and the state of the optimiser, and it draws from \<open>Math.random()\<close>,
  with which the library shuffles the batch.
\<close>

record ('w, 'o) sequential =
  weights :: 'w
  optimizer :: 'o
  net_predict :: "'w \<Rightarrow> real list list \<Rightarrow> real list list"
  net_fit :: "'w \<Rightarrow> 'o \<Rightarrow> real list list \<Rightarrow> real list list \<Rightarrow> rng \<Rightarrow> ('w \<times> 'o) \<times> rng"

text \<open>\<open>net.predict(tensor)\<close> and \<open>await net.fit(x, y, { epochs: 1, verbose: 0 })\<close>.\<close>

definition seq_predict :: "('w, 'o) sequential \<Rightarrow> real list list \<Rightarrow> real list list" where
  "seq_predict net t = net_predict net (weights net) t"

definition seq_fit ::
  "('w, 'o) sequential \<Rightarrow> real list list \<Rightarrow> real list list \<Rightarrow> rng
     \<Rightarrow> ('w, 'o) sequential \<times> rng" where
  "seq_fit net x y r =
     (let ((w, opt), r') = net_fit net (weights net) (optimizer net) x y r
      in (net\<lparr>weights := w, optimizer := opt\<rparr>, r'))"

text \<open>
  \<open>tf.tensor2d(values, [values.length, cols])\<close> throws when the values do not have the
  shape given: every row must have \<open>cols\<close> entries.
\<close>

definition tensor2d :: "real list list \<Rightarrow> nat \<Rightarrow> real list list option" where
  "tensor2d vals cols = (if list_all (\<lambda>row. length row = cols) vals then Some vals else None)"

text \<open>
  The fields of \<open>DQN\<close> and of its subclass \<open>DDQN\<close>, which adds the target network:
  \<open>targetModel = None\<close> is an object of the class \<open>DQN\<close>, which has neither
  \<open>predictTarget\<close> nor \<open>updateTarget\<close>. The field \<open>model\<close> of the class is \<open>dqn_model\<close>
  here; \<open>hiddenDim\<close> is used only to build the networks.
\<close>

record ('w, 'o) dqn =
  stateDim :: nat
  actionDim :: nat
  dqn_model :: "('w, 'o) sequential"
  targetModel :: "('w, 'o) sequential option"

text \<open>\<open>predict(state)\<close> of \<open>DQN\<close>, and \<open>predictTarget(state)\<close> of \<open>DDQN\<close>.\<close>

definition predict :: "('w, 'o) dqn \<Rightarrow> real list list \<Rightarrow> real list list option" where
  "predict m state =
     (case tensor2d state (stateDim m) of
        None \<Rightarrow> None
      | Some stateTensor \<Rightarrow> Some (seq_predict (dqn_model m) stateTensor))"

definition predictTarget :: "('w, 'o) dqn \<Rightarrow> real list list \<Rightarrow> real list list option" where
  "predictTarget m state =
     (case targetModel m of
        None \<Rightarrow> None
      | Some target \<Rightarrow>
          (case tensor2d state (stateDim m) of
             None \<Rightarrow> None
           | Some stateTensor \<Rightarrow> Some (seq_predict target stateTensor)))"

text \<open>
  \<open>update(states, targets)\<close> of \<open>DQN\<close>: both tensors are built, then the network is
  trained on them for one epoch.
\<close>

definition DQN_update ::
  "('w, 'o) dqn \<Rightarrow> real list list \<Rightarrow> real list list \<Rightarrow> rng \<Rightarrow> (('w, 'o) dqn \<times> rng) option" where
  "DQN_update m states targets r =
     (case tensor2d states (stateDim m) of
        None \<Rightarrow> None
      | Some stateTensor \<Rightarrow>
          (case tensor2d targets (actionDim m) of
             None \<Rightarrow> None
           | Some targetTensor \<Rightarrow>
               let (net, r') = seq_fit (dqn_model m) stateTensor targetTensor r
               in Some (m\<lparr>dqn_model := net\<rparr>, r')))"

text \<open>
  \<open>updateTarget()\<close> of \<open>DDQN\<close>: the weights of the main network are copied into the target
  network. It is called only on an object that has the method.
\<close>

definition updateTarget :: "('w, 'o) dqn \<Rightarrow> ('w, 'o) dqn" where
  "updateTarget m =
     (case targetModel m of
        None \<Rightarrow> m
      | Some target \<Rightarrow> m\<lparr>targetModel := Some (target\<lparr>weights := weights (dqn_model m)\<rparr>)\<rparr>)"

text \<open>
  The constructors. \<open>buildModel\<close>, which makes a network with weights that the library
  draws at random, is a parameter. \<open>DDQN\<close> builds the main network, then the target
  network, and copies the weights of the first into the second.
\<close>

definition DQN ::
  "nat \<Rightarrow> nat \<Rightarrow> (rng \<Rightarrow> ('w, 'o) sequential \<times> rng) \<Rightarrow> rng \<Rightarrow> ('w, 'o) dqn \<times> rng" where
  "DQN sd ad buildModel r =
     (let (net, r') = buildModel r
      in (\<lparr>stateDim = sd, actionDim = ad, dqn_model = net, targetModel = None\<rparr>, r'))"

definition DDQN ::
  "nat \<Rightarrow> nat \<Rightarrow> (rng \<Rightarrow> ('w, 'o) sequential \<times> rng) \<Rightarrow> rng \<Rightarrow> ('w, 'o) dqn \<times> rng" where
  "DDQN sd ad buildModel r =
     (let (m, r1) = DQN sd ad buildModel r;
          (target, r2) = buildModel r1
      in (updateTarget (m\<lparr>targetModel := Some target\<rparr>), r2))"

text \<open>
  \<open>t.argMax(1).dataSync()[0]\<close> and \<open>t.max(1).dataSync()[0]\<close> on a batch of one row: the
  index of the first greatest value of the row, and that value. An empty row has neither.
\<close>

fun argMax_from :: "real list \<Rightarrow> nat \<Rightarrow> nat \<Rightarrow> real \<Rightarrow> nat" where
  "argMax_from [] i best bv = best"
| "argMax_from (v # vs) i best bv =
     (if v > bv then argMax_from vs (Suc i) i v else argMax_from vs (Suc i) best bv)"

definition argMax_row :: "real list \<Rightarrow> nat option" where
  "argMax_row row = (case row of [] \<Rightarrow> None | v # vs \<Rightarrow> Some (argMax_from vs 1 0 v))"

definition max_row :: "real list \<Rightarrow> real option" where
  "max_row row = (case row of [] \<Rightarrow> None | v # vs \<Rightarrow> Some (fold max vs v))"

section \<open>agent.js: the agent\<close>

text \<open>One stored experience \<open>{ state, action, reward, nextState, done }\<close>.\<close>

record experience =
  exp_state :: "real list"
  exp_action :: nat
  exp_reward :: real
  exp_nextState :: "real list"
  exp_done :: bool

text \<open>The snapshot \<open>{ state, done, totalReward, steps }\<close> kept in \<open>currentEpisodeState\<close>.\<close>

record episodeState =
  es_state :: "real list"
  es_done :: bool
  es_totalReward :: real
  es_steps :: nat

text \<open>
  The fields of \<open>Agent\<close>. \<open>trainingDelay\<close> is \<open>undefined\<close> (\<open>None\<close>) until \<open>train\<close> or the
  application assigns it. The batch size, the memory capacity and the target update
  frequency are counts. The \<open>logCallback\<close> only writes to the page and is left out.
\<close>

record ('w, 'o) agent =
  env :: environment
  model :: "('w, 'o) dqn"
  gamma :: real
  epsilon :: real
  epsilonDecay :: real
  epsilonMin :: real
  batchSize :: nat
  memoryMaxLen :: nat
  targetUpdateFreq :: nat
  memory :: "experience list"
  memoryIndex :: nat
  episode :: nat
  totalSteps :: nat
  isTraining :: bool
  currentEpisodeState :: "episodeState option"
  isPaused :: bool
  episodeRewards :: "real list"
  episodeScores :: "nat list"
  episodeLengths :: "nat list"
  trainingDelay :: "nat option"

text \<open>The \<open>config\<close> object of the constructor; \<open>None\<close> is a field that is not given.\<close>

record config =
  cfg_gamma :: "real option"
  cfg_epsilon :: "real option"
  cfg_epsilonDecay :: "real option"
  cfg_epsilonMin :: "real option"
  cfg_batchSize :: "nat option"
  cfg_memoryMaxLen :: "nat option"
  cfg_targetUpdateFreq :: "nat option"

text \<open>
  \<open>v || d\<close> for a number or \<open>undefined\<close> on the left: the left operand unless it is falsy,
  and of these values \<open>undefined\<close> and \<open>0\<close> are the falsy ones.
\<close>

definition js_or :: "'a::zero option \<Rightarrow> 'a \<Rightarrow> 'a" where
  "js_or v d = (case v of None \<Rightarrow> d | Some n \<Rightarrow> if n = 0 then d else n)"

definition Agent :: "environment \<Rightarrow> ('w, 'o) dqn \<Rightarrow> config \<Rightarrow> ('w, 'o) agent" where
  "Agent e m c =
     \<lparr>env = e, model = m,
      gamma = js_or (cfg_gamma c) (99 / 100),
      epsilon = js_or (cfg_epsilon c) (3 / 10),
      epsilonDecay = js_or (cfg_epsilonDecay c) (9995 / 10000),
      epsilonMin = js_or (cfg_epsilonMin c) (1 / 100),
      batchSize = js_or (cfg_batchSize c) 32,
      memoryMaxLen = js_or (cfg_memoryMaxLen c) 10000,
      targetUpdateFreq = js_or (cfg_targetUpdateFreq c) 10,
      memory = [], memoryIndex = 0,
      episode = 0, totalSteps = 0, isTraining = False,
      currentEpisodeState = None, isPaused = False,
      episodeRewards = [], episodeScores = [], episodeLengths = [],
      trainingDelay = None\<rparr>"

definition act :: "('w, 'o) agent \<Rightarrow> real list \<Rightarrow> rng \<Rightarrow> (nat \<times> rng) option" where
  "act a s r =
     (let (u, r1) = Math_random r
      in if u < epsilon a then
           (let (v, r2) = Math_random r1
            in if v < 75 / 100 then Some (0, r2) else Some (1, r2))
         else
           (case predict (model a) [s] of
              None \<Rightarrow> None
            | Some [] \<Rightarrow> None
            | Some (qValues # _) \<Rightarrow>
                (case argMax_row qValues of None \<Rightarrow> None | Some i \<Rightarrow> Some (i, r1))))"

text \<open>
  \<open>remember\<close>. The overwritten slot \<open>memoryIndex % memoryMaxLen\<close> lies inside the array
  whenever the capacity is positive, since this branch is taken only when the array has at
  least \<open>memoryMaxLen\<close> elements. With capacity 0 the remainder is \<open>NaN\<close>, and the
  assignment to the key \<open>NaN\<close> leaves the elements of the array as they are.
\<close>

definition remember :: "('w, 'o) agent \<Rightarrow> real list \<Rightarrow> nat \<Rightarrow> real \<Rightarrow> real list \<Rightarrow> bool \<Rightarrow> ('w, 'o) agent" where
  "remember a s act_taken rew s' d =
     (let experience = \<lparr>exp_state = s, exp_action = act_taken, exp_reward = rew,
                         exp_nextState = s', exp_done = d\<rparr>;
          a1 = (if length (memory a) < memoryMaxLen a
                then a\<lparr>memory := memory a @ [experience]\<rparr>
                else if memoryMaxLen a = 0 then a
                else a\<lparr>memory := (memory a)[memoryIndex a mod memoryMaxLen a := experience]\<rparr>)
      in a1\<lparr>memoryIndex := memoryIndex a1 + 1\<rparr>)"

text \<open>
  The loop of \<open>sampleBatch\<close>, which need not end: \<open>None\<close> is the run that never leaves
  it. \<open>indices\<close> is the \<open>Set\<close> of the slots drawn so far, in the order of insertion;
  \<open>memory[index]\<close> is \<open>undefined\<close> (\<open>None\<close>) outside the array.
\<close>

partial_function (option) sampleBatch_loop ::
  "experience list \<Rightarrow> nat \<Rightarrow> int list \<Rightarrow> experience option list \<Rightarrow> rng
     \<Rightarrow> (experience option list \<times> rng) option" where
  "sampleBatch_loop mem sz indices batch r =
     (if length indices < sz then
        (let (u, r') = Math_random r;
             index = \<lfloor>u * real (length mem)\<rfloor>
         in if index \<notin> set indices
            then sampleBatch_loop mem sz (indices @ [index])
                   (batch @ [if 0 \<le> index \<and> nat index < length mem
                             then Some (mem ! nat index) else None]) r'
            else sampleBatch_loop mem sz indices batch r')
      else Some (batch, r))"

declare sampleBatch_loop.simps [code]

definition sampleBatch :: "('w, 'o) agent \<Rightarrow> nat \<Rightarrow> rng \<Rightarrow> (experience option list \<times> rng) option" where
  "sampleBatch a sz r = sampleBatch_loop (memory a) sz [] [] r"

text \<open>
  The body of the loop of \<open>replay\<close> for one experience of the batch: the row of targets
  pushed to \<open>targets\<close>. \<open>qValues[action] = v\<close> on the typed array that \<open>dataSync\<close> returns
  changes nothing when \<open>action\<close> is past its end, as the list update does; the array holds
  32-bit floats, and the rounding of \<open>v\<close> to one is not modelled (the value -15 of the
  reward below is one).
\<close>

definition replay_target :: "('w, 'o) agent \<Rightarrow> bool \<Rightarrow> experience \<Rightarrow> real list option" where
  "replay_target a isDDQN x =
     (case predict (model a) [exp_state x] of
        None \<Rightarrow> None
      | Some [] \<Rightarrow> None
      | Some (qValues # _) \<Rightarrow>
          if exp_done x then Some (qValues[exp_action x := exp_reward x])
          else
            (case (if isDDQN \<and> targetModel (model a) \<noteq> None
                   then predictTarget (model a) [exp_nextState x]
                   else predict (model a) [exp_nextState x]) of
               None \<Rightarrow> None
             | Some [] \<Rightarrow> None
             | Some (nq # _) \<Rightarrow>
                 (case max_row nq of
                    None \<Rightarrow> None
                  | Some nextQ \<Rightarrow>
                      Some (qValues[exp_action x := exp_reward x + gamma a * nextQ]))))"

text \<open>
  The loop \<open>for (let experience of batch)\<close>, which fills \<open>states\<close> and \<open>targets\<close>:
  destructuring an \<open>undefined\<close> element throws.
\<close>

fun replay_rows :: "('w, 'o) agent \<Rightarrow> bool \<Rightarrow> experience option list
                     \<Rightarrow> (real list list \<times> real list list) option" where
  "replay_rows a isDDQN [] = Some ([], [])"
| "replay_rows a isDDQN (None # xs) = None"
| "replay_rows a isDDQN (Some x # xs) =
     (case replay_target a isDDQN x of
        None \<Rightarrow> None
      | Some t \<Rightarrow>
          (case replay_rows a isDDQN xs of
             None \<Rightarrow> None
           | Some (states, targets) \<Rightarrow> Some (exp_state x # states, t # targets)))"

definition replay :: "('w, 'o) agent \<Rightarrow> bool \<Rightarrow> rng \<Rightarrow> (('w, 'o) agent \<times> rng) option" where
  "replay a isDDQN r =
     (if length (memory a) < batchSize a then Some (a, r)
      else
        (case sampleBatch a (batchSize a) r of
           None \<Rightarrow> None
         | Some (batch, r') \<Rightarrow>
             (case replay_rows a isDDQN batch of
                None \<Rightarrow> None
              | Some (states, targets) \<Rightarrow>
                  (case DQN_update (model a) states targets r' of
                     None \<Rightarrow> None
                   | Some (m, r'') \<Rightarrow> Some (a\<lparr>model := m\<rparr>, r'')))))"

subsection \<open>One episode\<close>

text \<open>\<open>stop\<close>, which the page calls to end the training.\<close>

definition stop :: "('w, 'o) agent \<Rightarrow> ('w, 'o) agent" where
  "stop a = a\<lparr>isTraining := False\<rparr>"

text \<open>
  \<open>await this.sleep(this.trainingDelay)\<close> gives control back to the page until the timer
  fires. The schedule \<open>h\<close> of a run says what the page does in the delay after each tick
  (counted by \<open>totalSteps\<close>): nothing (\<open>None\<close>), or the stop button is clicked and, before
  the timer fires, the render loop of the application calls \<open>game.update()\<close> \<open>k\<close> times
  (\<open>Some k\<close>). The click runs \<open>stopTraining\<close> of the application, which calls \<open>stop()\<close> and
  leaves its flag \<open>isTrainingPaused\<close> false, since the agent saves its snapshot and sets
  \<open>isPaused\<close> only after the delay; from then on the application is neither training nor
  paused, which is when the render loop (\<open>startRendering\<close>) updates the game, once for every
  50 ms it has accumulated. How many updates that makes depends on the clock, so \<open>k\<close> is
  part of the schedule. An update that throws ends the run (\<open>None\<close>).

  The other handlers of the page (the sliders, the keys and clicks of manual play, reset)
  are not modelled, nor a stop request that arrives while the learning step awaits the
  model, which ends the training at the end of the episode.
\<close>

type_synonym schedule = "nat \<Rightarrow> nat option"

fun render_updates :: "nat \<Rightarrow> game \<Rightarrow> rng \<Rightarrow> (game \<times> rng) option" where
  "render_updates 0 g r = Some (g, r)"
| "render_updates (Suc k) g r =
     (case update g r of
        None \<Rightarrow> None
      | Some (g', r') \<Rightarrow> render_updates k g' r')"

definition sleep ::
  "schedule \<Rightarrow> ('w, 'o) agent \<Rightarrow> rng \<Rightarrow> (('w, 'o) agent \<times> rng) option" where
  "sleep h a r =
     (case h (totalSteps a) of
        None \<Rightarrow> Some (a, r)
      | Some k \<Rightarrow>
          (case render_updates k (game (env a)) r of
             None \<Rightarrow> None
           | Some (g, r') \<Rightarrow> Some ((stop a)\<lparr>env := (env a)\<lparr>game := g\<rparr>\<rparr>, r')))"

text \<open>The delay after a tick: \<open>if (this.trainingDelay > 0) await this.sleep(...)\<close>.\<close>

definition training_delay ::
  "schedule \<Rightarrow> ('w, 'o) agent \<Rightarrow> rng \<Rightarrow> (('w, 'o) agent \<times> rng) option" where
  "training_delay h a r =
     (case trainingDelay a of
        None \<Rightarrow> Some (a, r)
      | Some ms \<Rightarrow> if ms > 0 then sleep h a r else Some (a, r))"

definition maxSteps :: nat where "maxSteps = 30000"

text \<open>
  The body of the loop of \<open>trainEpisode\<close> up to and with the delay: one simulated tick.
  It returns the agent and the local variables \<open>state\<close>, \<open>done\<close> and \<open>totalReward\<close>;
  the counter \<open>steps\<close> of the loop is advanced in \<open>rollout\<close> below.
\<close>

definition tick ::
  "schedule \<Rightarrow> ('w, 'o) agent \<Rightarrow> rng \<Rightarrow> real list \<Rightarrow> real
     \<Rightarrow> (('w, 'o) agent \<times> rng \<times> real list \<times> bool \<times> real) option" where
  "tick h a r s tot =
     (case act a s r of
        None \<Rightarrow> None
      | Some (action, r1) \<Rightarrow>
          (case step ((env a)\<lparr>lastAction := Some action\<rparr>) action r1 of
             None \<Rightarrow> None
           | Some (result, e2, r2) \<Rightarrow>
               let a1 = remember (a\<lparr>env := e2\<rparr>) s action (res_reward result)
                          (res_state result) (res_done result);
                   a2 = a1\<lparr>totalSteps := totalSteps a1 + 1\<rparr>
               in (case training_delay h a2 r2 of
                     None \<Rightarrow> None
                   | Some (a3, r3) \<Rightarrow>
                       Some (a3, r3, res_state result, res_done result,
                             tot + res_reward result))))"

text \<open>
  How the loop of \<open>trainEpisode\<close> is left: by \<open>return null\<close> after the snapshot has been
  saved, or by its condition, with the local variables as they are then.
\<close>

datatype ('w, 'o) loop_exit =
  Paused "('w, 'o) agent" rng
| Ended "('w, 'o) agent" rng "real list" bool real nat

function rollout ::
  "schedule \<Rightarrow> ('w, 'o) agent \<Rightarrow> rng \<Rightarrow> real list \<Rightarrow> bool \<Rightarrow> real \<Rightarrow> nat
     \<Rightarrow> ('w, 'o) loop_exit option" where
  "rollout h a r s d tot n =
     (if \<not> d \<and> n < maxSteps \<and> isTraining a then
        (case tick h a r s tot of
           None \<Rightarrow> None
         | Some (a', r', s', d', tot') \<Rightarrow>
             if \<not> isTraining a' \<and> \<not> d' then
               Some (Paused
                      (a'\<lparr>currentEpisodeState :=
                             Some \<lparr>es_state = s', es_done = d',
                                   es_totalReward = tot', es_steps = n + 1\<rparr>,
                           isPaused := True\<rparr>) r')
             else rollout h a' r' s' d' tot' (n + 1))
      else Some (Ended a r s d tot n))"
  by pat_completeness auto
termination
  by (relation "measure (\<lambda>(h, a, r, s, d, tot, n). maxSteps - n)") auto

text \<open>
  The start of \<open>trainEpisode\<close>. First the target network is synchronised when due (a
  remainder by 0 is \<open>NaN\<close>, which is not \<open>0\<close>; an object of the class \<open>DQN\<close> has no
  \<open>updateTarget\<close>). Then the saved episode is taken up again, or a new one is started.
\<close>

definition sync_target :: "bool \<Rightarrow> ('w, 'o) agent \<Rightarrow> ('w, 'o) agent" where
  "sync_target isDDQN a =
     (if isDDQN \<and> targetUpdateFreq a \<noteq> 0 \<and> episode a mod targetUpdateFreq a = 0
         \<and> targetModel (model a) \<noteq> None
      then a\<lparr>model := updateTarget (model a)\<rparr> else a)"

definition begin_episode ::
  "bool \<Rightarrow> ('w, 'o) agent \<Rightarrow> rng
     \<Rightarrow> (('w, 'o) agent \<times> rng \<times> real list \<times> bool \<times> real \<times> nat) option" where
  "begin_episode isDDQN a r =
     (let a1 = sync_target isDDQN a
      in case currentEpisodeState a1 of
           Some saved \<Rightarrow>
             if isPaused a1
             then Some (a1\<lparr>isPaused := False\<rparr>, r, es_state saved, es_done saved,
                        es_totalReward saved, es_steps saved)
             else (case env_reset (env a1) r of
                     None \<Rightarrow> None
                   | Some (s, e', r') \<Rightarrow> Some (a1\<lparr>env := e'\<rparr>, r', s, False, 0, 0))
         | None \<Rightarrow>
             (case env_reset (env a1) r of
                None \<Rightarrow> None
              | Some (s, e', r') \<Rightarrow> Some (a1\<lparr>env := e'\<rparr>, r', s, False, 0, 0)))"

text \<open>The object \<open>{ episode, score, reward, steps }\<close> returned for a completed episode.\<close>

record episodeResult =
  r_episode :: nat
  r_score :: nat
  r_reward :: real
  r_steps :: nat

text \<open>The end of \<open>trainEpisode\<close>, after the loop has been left by its condition.\<close>

definition finish_episode ::
  "bool \<Rightarrow> ('w, 'o) agent \<Rightarrow> rng \<Rightarrow> real \<Rightarrow> nat \<Rightarrow> (('w, 'o) agent \<times> rng \<times> episodeResult) option" where
  "finish_episode isDDQN a r tot n =
     (case replay (a\<lparr>currentEpisodeState := None, isPaused := False\<rparr>) isDDQN r of
        None \<Rightarrow> None
      | Some (a2, r2) \<Rightarrow>
          let a3 = a2\<lparr>epsilon := max (epsilonMin a2) (epsilon a2 * epsilonDecay a2)\<rparr>;
              a4 = a3\<lparr>episodeRewards := episodeRewards a3 @ [tot],
                      episodeScores := episodeScores a3 @ [score (game (env a3))],
                      episodeLengths := episodeLengths a3 @ [n]\<rparr>;
              a5 = a4\<lparr>episode := episode a4 + 1\<rparr>
          in Some (a5, r2, \<lparr>r_episode = episode a5, r_score = score (game (env a5)),
                            r_reward = tot, r_steps = n\<rparr>))"

text \<open>\<open>trainEpisode\<close>; the result \<open>None\<close> beside the agent is the JavaScript \<open>null\<close>.\<close>

definition trainEpisode ::
  "schedule \<Rightarrow> bool \<Rightarrow> ('w, 'o) agent \<Rightarrow> rng
     \<Rightarrow> (('w, 'o) agent \<times> rng \<times> episodeResult option) option" where
  "trainEpisode h isDDQN a r =
     (case begin_episode isDDQN a r of
        None \<Rightarrow> None
      | Some (a1, r1, s, d, tot, n) \<Rightarrow>
          (case rollout h a1 r1 s d tot n of
             None \<Rightarrow> None
           | Some (Paused a2 r2) \<Rightarrow> Some (a2, r2, None)
           | Some (Ended a2 r2 s2 d2 tot2 n2) \<Rightarrow>
               (case finish_episode isDDQN a2 r2 tot2 n2 of
                  None \<Rightarrow> None
                | Some (a3, r3, res) \<Rightarrow> Some (a3, r3, Some res))))"

subsection \<open>Training, stopping and resetting\<close>

fun train_loop ::
  "schedule \<Rightarrow> bool \<Rightarrow> nat \<Rightarrow> ('w, 'o) agent \<Rightarrow> rng \<Rightarrow> (('w, 'o) agent \<times> rng) option" where
  "train_loop h isDDQN 0 a r = Some (a, r)"
| "train_loop h isDDQN (Suc k) a r =
     (if \<not> isTraining a then Some (a, r)
      else (case trainEpisode h isDDQN a r of
              None \<Rightarrow> None
            | Some (a', r', None) \<Rightarrow> Some (a', r')
            | Some (a', r', Some res) \<Rightarrow> train_loop h isDDQN k a' r'))"

definition train ::
  "schedule \<Rightarrow> nat \<Rightarrow> bool \<Rightarrow> nat \<Rightarrow> ('w, 'o) agent \<Rightarrow> rng \<Rightarrow> (('w, 'o) agent \<times> rng) option" where
  "train h episodes isDDQN delay a r =
     (case train_loop h isDDQN episodes
             (a\<lparr>isTraining := True, trainingDelay := Some delay\<rparr>) r of
        None \<Rightarrow> None
      | Some (a', r') \<Rightarrow> Some (a'\<lparr>isTraining := False\<rparr>, r'))"

definition agent_reset :: "('w, 'o) agent \<Rightarrow> ('w, 'o) agent" where
  "agent_reset a =
     a\<lparr>isTraining := False, currentEpisodeState := None, isPaused := False,
       episode := 0, totalSteps := 0, memory := [], memoryIndex := 0,
       episodeRewards := [], episodeScores := [], episodeLengths := []\<rparr>"

section \<open>The application: FlappyBirdDQN\<close>

text \<open>
  Of the application object, the fields that \<open>reset\<close> and \<open>stopTraining\<close> use. Its
  \<open>game\<close>, \<open>env\<close> and \<open>model\<close> are the very objects the agent holds, and are reached
  through the agent here. Writing to the page is left out.
\<close>

record ('w, 'o) flappyBirdDQN =
  agent :: "('w, 'o) agent"
  app_isTraining :: bool
  isTrainingPaused :: bool
  skipNextStopTrainingCallback :: bool

text \<open>The configuration that the constructor of the application passes to \<open>Agent\<close>.\<close>

definition app_config :: config where
  "app_config =
     \<lparr>cfg_gamma = Some (99 / 100), cfg_epsilon = Some (3 / 10),
      cfg_epsilonDecay = Some (9995 / 10000), cfg_epsilonMin = Some (1 / 100),
      cfg_batchSize = Some 32, cfg_memoryMaxLen = Some 10000,
      cfg_targetUpdateFreq = Some 10\<rparr>"

definition FlappyBirdDQN :: "environment \<Rightarrow> ('w, 'o) dqn \<Rightarrow> ('w, 'o) flappyBirdDQN" where
  "FlappyBirdDQN e m =
     \<lparr>agent = Agent e m app_config, app_isTraining = False, isTrainingPaused = False,
      skipNextStopTrainingCallback = False\<rparr>"

definition stopTraining :: "bool \<Rightarrow> ('w, 'o) flappyBirdDQN \<Rightarrow> ('w, 'o) flappyBirdDQN" where
  "stopTraining silent app =
     (let app1 = app\<lparr>app_isTraining := False, agent := stop (agent app)\<rparr>
      in if \<not> silent \<and> isPaused (agent app1) \<and> currentEpisodeState (agent app1) \<noteq> None
         then app1\<lparr>isTrainingPaused := True\<rparr>
         else app1\<lparr>isTrainingPaused := False\<rparr>)"

text \<open>
  \<open>reset\<close> of the application; \<open>fresh\<close> is the model that \<open>new DDQN(4, 2, hiddenDim)\<close>
  creates.
\<close>

definition app_reset ::
  "('w, 'o) flappyBirdDQN \<Rightarrow> ('w, 'o) dqn \<Rightarrow> rng \<Rightarrow> ('w, 'o) flappyBirdDQN \<times> rng" where
  "app_reset app fresh r =
     (let app1 = app\<lparr>skipNextStopTrainingCallback := True\<rparr>;
          app2 = stopTraining True app1;
          app3 = app2\<lparr>isTrainingPaused := False\<rparr>;
          a1 = agent_reset (agent app3);
          a2 = a1\<lparr>epsilon := 3 / 10\<rparr>;
          a3 = a2\<lparr>model := fresh\<rparr>;
          (g, r') = initializeGame (game (env a3)) r;
          a4 = a3\<lparr>env := (env a3)\<lparr>game := g, previousScore := 0\<rparr>\<rparr>
      in (app3\<lparr>agent := a4\<rparr>, r'))"

section \<open>Constructors and a concrete run\<close>

text \<open>
  The constructor of \<open>Game\<close>: the sprite sheet has not been loaded yet (its \<open>onload\<close>
  handler sets \<open>spriteLoaded\<close> and the masks later), and \<open>initializeGame\<close> places the tubes.
\<close>

definition Game :: "rng \<Rightarrow> game \<times> rng" where
  "Game r =
     initializeGame
       \<lparr>birdY = 14, birdYSpeed = 0, birdFrame = 0, tubes = [], gameState = HOME, score = 0,
        groundX = 0, spriteLoaded = False, birdMasks = [], tubeMask = None\<rparr> r"

text \<open>
  The \<open>onload\<close> handler of the sprite sheet. The masks are built from the pixels of the
  image: one for each of the three frames of the bird, and one for the pipe.
\<close>

definition onload :: "mask list \<Rightarrow> mask \<Rightarrow> game \<Rightarrow> game" where
  "onload bird_masks tube_mask g =
     g\<lparr>spriteLoaded := True, birdMasks := bird_masks, tubeMask := Some tube_mask\<rparr>"

definition Environment :: "game \<Rightarrow> environment" where
  "Environment g = \<lparr>game = g, previousScore = 0, lastAction = None\<rparr>"

text \<open>
  Masks as the \<open>onload\<close> handler builds them from a sprite sheet: a bird of 5 by 3 opaque
  pixels, and a pipe of 6 by 44 pixels that is opaque but for the 12 rows of the gap below
  its upper 17 rows.
\<close>

definition bird_mask :: mask where
  "bird_mask = \<lparr>mask_bits = replicate 15 True, mask_w = 5, mask_h = 3\<rparr>"

definition pipe_mask :: mask where
  "pipe_mask =
     \<lparr>mask_bits = replicate 102 True @ replicate 72 False @ replicate 90 True,
      mask_w = 6, mask_h = 44\<rparr>"


text \<open>
  The inputs of the concrete runs below: \<open>Math.random()\<close> returns 0.5 at every call; the
  page never stops the training (\<open>never\<close>), or stops it during the first delay, with no
  update of the game by the render loop before the timer fires (\<open>first_tick\<close>) or with one
  (\<open>first_tick_render\<close>); the network values both actions at 0 whatever the state and
  learns nothing; and the environment is built on a new game whose sprite sheet has been
  loaded.
\<close>

definition half :: rng where
  "half n = 1 / 2"

definition never :: schedule where
  "never n = None"

definition first_tick :: schedule where
  "first_tick n = (if n = 1 then Some 0 else None)"

definition first_tick_render :: schedule where
  "first_tick_render n = (if n = 1 then Some 1 else None)"

definition flat_net :: "(unit, unit) sequential" where
  "flat_net =
     \<lparr>weights = (), optimizer = (), net_predict = (\<lambda>w t. map (\<lambda>row. [0, 0]) t),
      net_fit = (\<lambda>w opt x y r. ((w, opt), r))\<rparr>"

definition flat_model :: "(unit, unit) dqn" where
  "flat_model = fst (DDQN 4 2 (\<lambda>r. (flat_net, r)) half)"

definition env0 :: environment where
  "env0 = Environment (onload [bird_mask, bird_mask, bird_mask] pipe_mask (fst (Game half)))"

definition agent0 :: "(unit, unit) agent" where
  "agent0 = Agent env0 flat_model app_config"

section \<open>Derived notions and concrete states\<close>


definition falling_env :: environment where
  "falling_env =
     \<lparr>game = \<lparr>birdY = 28, birdYSpeed = 1, birdFrame = 0,
               tubes = [\<lparr>tube_x = 40, tube_y = - 10\<rparr>, \<lparr>tube_x = 59, tube_y = - 10\<rparr>],
               gameState = PLAYING, score = 0, groundX = 0, spriteLoaded = True,
               birdMasks = [bird_mask, bird_mask, bird_mask], tubeMask = Some pipe_mask\<rparr>,
      previousScore = 0, lastAction = None\<rparr>"

text \<open>
  A sequence of \<open>remember\<close> calls, one for each transition of a list: the transition \<open>xs ! j\<close>
  is the insertion numbered \<open>j\<close>, counted from 0.
\<close>

definition remember_exp :: "('w, 'o) agent \<Rightarrow> experience \<Rightarrow> ('w, 'o) agent" where
  "remember_exp a x =
     remember a (exp_state x) (exp_action x) (exp_reward x) (exp_nextState x) (exp_done x)"

definition remember_all :: "('w, 'o) agent \<Rightarrow> experience list \<Rightarrow> ('w, 'o) agent" where
  "remember_all a xs = foldl remember_exp a xs"

text \<open>A transition that carries its number.\<close>

definition numbered :: "nat \<Rightarrow> experience" where
  "numbered k =
     \<lparr>exp_state = [real k], exp_action = 0, exp_reward = real k, exp_nextState = [real k + 1],
      exp_done = False\<rparr>"

text \<open>
  A memory of two transitions, and a random source that returns 0 and 0.5 in turn: the
  two draws hit slots 0 and 1.
\<close>

definition agent2 :: "(unit, unit) agent" where
  "agent2 = remember_all agent0 [numbered 0, numbered 1]"

definition alternate :: rng where
  "alternate k = (if even k then 0 else 1 / 2)"

text \<open>
  What a tick, and the loop as long as it is not left by the pause exit, leave alone: the
  model, the hyperparameters, the episode index and the statistics.
\<close>

definition same_learning :: "('w, 'o) agent \<Rightarrow> ('w, 'o) agent \<Rightarrow> bool" where
  "same_learning a a' \<longleftrightarrow>
     model a' = model a \<and> gamma a' = gamma a \<and> epsilon a' = epsilon a
     \<and> epsilonDecay a' = epsilonDecay a \<and> epsilonMin a' = epsilonMin a
     \<and> batchSize a' = batchSize a \<and> memoryMaxLen a' = memoryMaxLen a
     \<and> targetUpdateFreq a' = targetUpdateFreq a \<and> episode a' = episode a
     \<and> episodeRewards a' = episodeRewards a \<and> episodeScores a' = episodeScores a
     \<and> episodeLengths a' = episodeLengths a \<and> trainingDelay a' = trainingDelay a"

text \<open>The agent with which the loop is left.\<close>

fun exit_agent :: "('w, 'o) loop_exit \<Rightarrow> ('w, 'o) agent" where
  "exit_agent (Paused a r) = a"
| "exit_agent (Ended a r s d tot n) = a"

text \<open>
  The values of \<open>totalReward\<close>, \<open>steps\<close> and \<open>done\<close> with which the loop is left by its
  condition.
\<close>

fun exit_vars :: "('w, 'o) loop_exit \<Rightarrow> (real \<times> nat \<times> bool) option" where
  "exit_vars (Paused a r) = None"
| "exit_vars (Ended a r s d tot n) = Some (tot, n, d)"

text \<open>
  Replacing the saved episode state and the pause flag in the agent of an exit by the
  condition; the pause exit has just written both.
\<close>

fun repause :: "episodeState option \<Rightarrow> bool \<Rightarrow> ('w, 'o) loop_exit \<Rightarrow> ('w, 'o) loop_exit" where
  "repause c p (Paused a r) = Paused a r"
| "repause c p (Ended a r s d tot n) =
     Ended (a\<lparr>currentEpisodeState := c, isPaused := p\<rparr>) r s d tot n"

text \<open>\<open>trainEpisode\<close> up to the point where its loop is left.\<close>

definition episode_loop ::
  "schedule \<Rightarrow> bool \<Rightarrow> ('w, 'o) agent \<Rightarrow> rng \<Rightarrow> ('w, 'o) loop_exit option" where
  "episode_loop h isDDQN a r =
     (case begin_episode isDDQN a r of
        None \<Rightarrow> None
      | Some (a1, r1, s, d, tot, n) \<Rightarrow> rollout h a1 r1 s d tot n)"

text \<open>
  The agent of the application after \<open>train\<close> has switched the training on with a delay of
  50 ms, and the agent that \<open>trainEpisode\<close> leaves when the training is stopped during the
  first delay.
\<close>

definition training0 :: "(unit, unit) agent" where
  "training0 = agent0\<lparr>isTraining := True, trainingDelay := Some 50\<rparr>"

definition paused0 :: "(unit, unit) agent" where
  "paused0 =
     training0
       \<lparr>env :=
          \<lparr>game = \<lparr>birdY = 14, birdYSpeed = 1 / 4, birdFrame = 1,
                    tubes = [\<lparr>tube_x = 47, tube_y = - 7\<rparr>, \<lparr>tube_x = 66, tube_y = - 7\<rparr>],
                    gameState = PLAYING, score = 0, groundX = - 1, spriteLoaded = True,
                    birdMasks = [bird_mask, bird_mask, bird_mask],
                    tubeMask = Some pipe_mask\<rparr>,
           previousScore = 0, lastAction = Some 0\<rparr>,
        memory :=
          [\<lparr>exp_state = [0, 43 / 32, 1 / 64, 7 / 16], exp_action = 0, exp_reward = 19 / 200,
            exp_nextState = [1 / 8, 21 / 16, 1 / 64, 7 / 16], exp_done = False\<rparr>],
        memoryIndex := 1, totalSteps := 1, isTraining := False,
        currentEpisodeState :=
          Some \<lparr>es_state = [1 / 8, 21 / 16, 1 / 64, 7 / 16], es_done = False,
                es_totalReward = 19 / 200, es_steps = 1\<rparr>,
        isPaused := True\<rparr>"

text \<open>A configuration with negative exploration rates.\<close>

definition negative_config :: config where
  "negative_config =
     \<lparr>cfg_gamma = None, cfg_epsilon = Some (- 1), cfg_epsilonDecay = Some (1 / 2),
      cfg_epsilonMin = Some (- 2), cfg_batchSize = None, cfg_memoryMaxLen = None,
      cfg_targetUpdateFreq = None\<rparr>"

text \<open>
  A network that values both actions at 0 and keeps as its weights the targets it was last
  trained on, the training drawing one random number; an agent with this network and a
  batch size of 1, in training in the environment \<open>falling_env\<close>; the transition \<open>crash\<close>
  of its next tick; the agent after that tick; and the agent after the learning step that
  follows.
\<close>

definition probe_net :: "(real list list, unit) sequential" where
  "probe_net =
     \<lparr>weights = [], optimizer = (), net_predict = (\<lambda>w t. map (\<lambda>row. [0, 0]) t),
      net_fit = (\<lambda>w opt x y r. ((y, opt), snd (Math_random r)))\<rparr>"

definition probe_model :: "(real list list, unit) dqn" where
  "probe_model = fst (DDQN 4 2 (\<lambda>r. (probe_net, r)) half)"

definition single_config :: config where
  "single_config =
     \<lparr>cfg_gamma = None, cfg_epsilon = None, cfg_epsilonDecay = None, cfg_epsilonMin = None,
      cfg_batchSize = Some 1, cfg_memoryMaxLen = None, cfg_targetUpdateFreq = None\<rparr>"

definition falling_agent :: "(real list list, unit) agent" where
  "falling_agent = (Agent falling_env probe_model single_config)\<lparr>isTraining := True\<rparr>"

definition crash :: experience where
  "crash =
     \<lparr>exp_state = [1 / 2, 35 / 32, - (33 / 64), 7 / 8], exp_action = 0, exp_reward = - 15,
      exp_nextState = [5 / 8, 17 / 16, - (33 / 64), 7 / 8], exp_done = True\<rparr>"

definition fallen_agent :: "(real list list, unit) agent" where
  "fallen_agent =
     falling_agent
       \<lparr>env :=
          \<lparr>game = \<lparr>birdY = 28, birdYSpeed = 5 / 4, birdFrame = 1,
                    tubes = [\<lparr>tube_x = 39, tube_y = - 10\<rparr>, \<lparr>tube_x = 58, tube_y = - 10\<rparr>],
                    gameState = GAME_OVER, score = 0, groundX = - 1, spriteLoaded = True,
                    birdMasks = [bird_mask, bird_mask, bird_mask],
                    tubeMask = Some pipe_mask\<rparr>,
           previousScore = 0, lastAction = Some 0\<rparr>,
        memory := [crash], memoryIndex := 1, totalSteps := 1\<rparr>"

definition taught_agent :: "(real list list, unit) agent" where
  "taught_agent =
     fallen_agent
       \<lparr>model := (model fallen_agent)
                   \<lparr>dqn_model := (dqn_model (model fallen_agent))\<lparr>weights := [[- 15, 0]]\<rparr>\<rparr>\<rparr>"

section \<open>Evaluation lemmas\<close>

declare rollout.simps [simp del]

lemmas game_consts =
  width_def height_def birdX_def birdWidth_def birdHeight_def gravity_def tubeWidth_def
  tubeGap_def bgLoc_width_def groundLoc_width_def tubeUpperHeight_def STAY_def JUMP_def

lemmas env_defs =
  env_reset_def game_reset_def resetTubes_def Math_round_def getState_def
  getClosestTube_def closer_def diffY_def step_def update_def calculateReward_def
  checkCollision_def jump_def Environment_def

lemmas dqn_defs =
  predict_def predictTarget_def DQN_update_def updateTarget_def tensor2d_def seq_predict_def
  seq_fit_def DQN_def DDQN_def

lemmas agent_defs =
  trainEpisode_def begin_episode_def sync_target_def finish_episode_def replay_def tick_def act_def
  remember_def argMax_row_def training_delay_def sleep_def stop_def train_def
  Agent_def js_or_def dqn_defs

lemma Math_random_half [simp]: "Math_random half = (1 / 2, half)"
  by (auto simp: Math_random_def half_def fun_eq_iff)

lemma setTubeY_half [simp]: "setTubeY t half = (t\<lparr>tube_y := - 7\<rparr>, half)"
  by (simp add: setTubeY_def Let_def tubeGap_def height_def Math_round_def)

lemma Game_half:
  "Game half =
     (\<lparr>birdY = 14, birdYSpeed = 0, birdFrame = 0,
       tubes = [\<lparr>tube_x = 48, tube_y = - 7\<rparr>, \<lparr>tube_x = 67, tube_y = - 7\<rparr>],
       gameState = HOME, score = 0, groundX = 0, spriteLoaded = False, birdMasks = [],
       tubeMask = None\<rparr>, half)"
  by (simp add: Game_def initializeGame_def resetTubes_def Math_round_def)

lemmas run_defs =
  training0_def agent0_def env0_def onload_def pipe_mask_def app_config_def Game_half agent_defs
  env_defs game_consts
  maxSteps_def flat_model_def flat_net_def first_tick_def never_def Let_def rollout.simps

section \<open>The constructor's defaults\<close>

text \<open>
  C10. For each of the seven hyperparameters of the configuration, passing the value 0 gives
  the documented default, exactly as leaving the field out does: the defaults are applied by
  \<open>||\<close> to every falsy value. Hence no configuration gives the agent \<open>epsilon = 0\<close> or
  \<open>epsilonMin = 0\<close>.
\<close>

theorem falsy_config_defaults:
  "gamma (Agent e m (c\<lparr>cfg_gamma := Some 0\<rparr>)) = 99 / 100
   \<and> epsilon (Agent e m (c\<lparr>cfg_epsilon := Some 0\<rparr>)) = 3 / 10
   \<and> epsilonDecay (Agent e m (c\<lparr>cfg_epsilonDecay := Some 0\<rparr>)) = 9995 / 10000
   \<and> epsilonMin (Agent e m (c\<lparr>cfg_epsilonMin := Some 0\<rparr>)) = 1 / 100
   \<and> batchSize (Agent e m (c\<lparr>cfg_batchSize := Some 0\<rparr>)) = 32
   \<and> memoryMaxLen (Agent e m (c\<lparr>cfg_memoryMaxLen := Some 0\<rparr>)) = 10000
   \<and> targetUpdateFreq (Agent e m (c\<lparr>cfg_targetUpdateFreq := Some 0\<rparr>)) = 10
   \<and> gamma (Agent e m (c\<lparr>cfg_gamma := None\<rparr>)) = 99 / 100
   \<and> epsilon (Agent e m (c\<lparr>cfg_epsilon := None\<rparr>)) = 3 / 10
   \<and> epsilonDecay (Agent e m (c\<lparr>cfg_epsilonDecay := None\<rparr>)) = 9995 / 10000
   \<and> epsilonMin (Agent e m (c\<lparr>cfg_epsilonMin := None\<rparr>)) = 1 / 100
   \<and> batchSize (Agent e m (c\<lparr>cfg_batchSize := None\<rparr>)) = 32
   \<and> memoryMaxLen (Agent e m (c\<lparr>cfg_memoryMaxLen := None\<rparr>)) = 10000
   \<and> targetUpdateFreq (Agent e m (c\<lparr>cfg_targetUpdateFreq := None\<rparr>)) = 10
   \<and> epsilon (Agent e m c) \<noteq> 0
   \<and> epsilonMin (Agent e m c) \<noteq> 0"
  by (simp add: Agent_def js_or_def split: option.split)

theorem falsy_config_defaults_witness:
  "epsilon (Agent env0 flat_model
      (app_config\<lparr>cfg_epsilon := Some 0\<rparr>)) = 3 / 10
   \<and> epsilonMin (Agent env0 flat_model
      (app_config\<lparr>cfg_epsilonMin := Some 0\<rparr>)) = 1 / 100
   \<and> memoryMaxLen (Agent env0 flat_model
      (app_config\<lparr>cfg_memoryMaxLen := Some 0\<rparr>)) = 10000"
  using falsy_config_defaults [of env0 flat_model app_config]
  by simp

section \<open>Reset\<close>

text \<open>
  C1, as the code has it. After \<open>reset()\<close> of the agent, whatever the state before, the
  replay memory is empty, the episode index is 0, the three statistics arrays are empty and
  the pause state is cleared; \<open>epsilon\<close> is left as it was, since the agent does not keep its
  configured initial value. It is the \<open>reset\<close> of the application that then assigns
  \<open>epsilon = 0.3\<close>, the value that the application configures at construction.
\<close>

theorem reset_completeness:
  "memory (agent_reset a) = [] \<and> memoryIndex (agent_reset a) = 0
   \<and> episode (agent_reset a) = 0 \<and> totalSteps (agent_reset a) = 0
   \<and> episodeRewards (agent_reset a) = [] \<and> episodeScores (agent_reset a) = []
   \<and> episodeLengths (agent_reset a) = []
   \<and> currentEpisodeState (agent_reset a) = None \<and> \<not> isPaused (agent_reset a)
   \<and> \<not> isTraining (agent_reset a)
   \<and> epsilon (agent_reset a) = epsilon a
   \<and> epsilon (agent (fst (app_reset app fresh r))) = 3 / 10
   \<and> epsilon (agent (FlappyBirdDQN e m)) = 3 / 10
   \<and> memory (agent (fst (app_reset app fresh r))) = []
   \<and> episode (agent (fst (app_reset app fresh r))) = 0
   \<and> episodeRewards (agent (fst (app_reset app fresh r))) = []
   \<and> episodeScores (agent (fst (app_reset app fresh r))) = []
   \<and> episodeLengths (agent (fst (app_reset app fresh r))) = []"
  by (simp add: agent_reset_def app_reset_def FlappyBirdDQN_def Agent_def js_or_def
        app_config_def stopTraining_def Let_def split: prod.split)

text \<open>
  The claim as stated fails for \<open>reset()\<close> of the agent. The agent is built with the
  application's configuration (\<open>epsilon = 0.3\<close>) and trained for one episode, which ends
  after 12 ticks and decays \<open>epsilon\<close> to 0.29985; after \<open>reset()\<close> it still has that
  value.
\<close>

theorem reset_epsilon_counterexample:
  "epsilon agent0 = 3 / 10
   \<and> map_option (episode \<circ> fst) (train never 1 False 0 agent0 half) = Some 1
   \<and> map_option (epsilon \<circ> agent_reset \<circ> fst) (train never 1 False 0 agent0 half)
       = Some (5997 / 20000)"
  by (simp add: run_defs agent_reset_def)

theorem reset_completeness_witness:
  "memory (agent_reset agent0) = [] \<and> episode (agent_reset agent0) = 0
   \<and> epsilon (agent_reset (agent0\<lparr>epsilon := 1 / 2\<rparr>)) = 1 / 2
   \<and> epsilon (agent (fst (app_reset (FlappyBirdDQN env0 flat_model)
        flat_model half))) = 3 / 10"
proof -
  have "epsilon (agent0\<lparr>epsilon := 1 / 2\<rparr>) = 1 / 2"
    by simp
  then show ?thesis
    using reset_completeness [of agent0]
      reset_completeness [of "agent0\<lparr>epsilon := 1 / 2\<rparr>"
        "FlappyBirdDQN env0 flat_model" flat_model half]
    by metis
qed

section \<open>Rewards\<close>

lemma calculateReward_frame:
  assumes "calculateReward e = Some (rew, e')"
  shows "game e' = game e" and "lastAction e' = lastAction e"
  using assms
  by (auto simp: calculateReward_def Let_def split: option.splits prod.splits if_splits)


lemma calculateReward_over:
  assumes "calculateReward e = Some (rew, e')" and "gameState (game e) = GAME_OVER"
  shows "\<exists>c. getClosestTube (game e) = Some c
           \<and> rew = (if 0 < diffY (game e) c \<and> lastAction e = Some JUMP then - 15
                     else if diffY (game e) c < 0 \<and> lastAction e = Some STAY then - 15
                     else - 10)"
  using assms
  by (auto simp: calculateReward_def Let_def split: option.splits prod.splits if_splits)

lemma step_SomeD:
  assumes "step e a r = Some (res, e', r')"
  shows "\<exists>g2. update (if a = JUMP then jump (game e) else game e) r = Some (g2, r')
           \<and> calculateReward (e\<lparr>lastAction := Some a, game := g2\<rparr>) = Some (res_reward res, e')
           \<and> getState e' = Some (res_state res)
           \<and> res_done res = (gameState (game e') = GAME_OVER)"
  using assms
  by (auto simp: step_def Let_def split: option.splits prod.splits if_splits)


lemma step_falling_env:
  "step falling_env STAY half =
     Some (\<lparr>res_state = [5 / 8, 17 / 16, - (33 / 64), 7 / 8], res_reward = - 15,
            res_done = True\<rparr>,
           \<lparr>game = \<lparr>birdY = 28, birdYSpeed = 5 / 4, birdFrame = 1,
                     tubes = [\<lparr>tube_x = 39, tube_y = - 10\<rparr>, \<lparr>tube_x = 58, tube_y = - 10\<rparr>],
                     gameState = GAME_OVER, score = 0, groundX = - 1, spriteLoaded = True,
                     birdMasks = [bird_mask, bird_mask, bird_mask],
                     tubeMask = Some pipe_mask\<rparr>,
            previousScore = 0, lastAction = Some 0\<rparr>,
           half)"
  by (simp add: falling_env_def env_defs game_consts Let_def pipe_mask_def)




subsection \<open>The targets of the learning step\<close>

lemma replay_target_done:
  assumes "replay_target a isDDQN x = Some t" and "exp_done x"
  shows "\<exists>qValues rest. predict (model a) [exp_state x] = Some (qValues # rest)
           \<and> t = qValues[exp_action x := exp_reward x]"
  using assms
  by (auto simp: replay_target_def split: option.splits list.splits)

lemma replay_rows_SomeD:
  assumes "replay_rows a isDDQN batch = Some (states, targets)"
  shows "length states = length batch \<and> length targets = length batch
         \<and> (\<forall>i<length batch.
               \<exists>y. batch ! i = Some y \<and> states ! i = exp_state y
                   \<and> replay_target a isDDQN y = Some (targets ! i))"
  using assms
proof (induction batch arbitrary: states targets)
  case Nil
  then show ?case
    by simp
next
  case (Cons b batch)
  from Cons.prems obtain x where b: "b = Some x"
    by (cases b) auto
  with Cons.prems obtain t states' targets' where
    t: "replay_target a isDDQN x = Some t"
    and rest: "replay_rows a isDDQN batch = Some (states', targets')"
    and st: "states = exp_state x # states'" "targets = t # targets'"
    by (auto split: option.splits)
  from Cons.IH [OF rest] have IH: "length states' = length batch" "length targets' = length batch"
    "\<forall>i<length batch.
               \<exists>y. batch ! i = Some y \<and> states' ! i = exp_state y
                   \<and> replay_target a isDDQN y = Some (targets' ! i)"
    by simp_all
  have "\<exists>y. (b # batch) ! i = Some y \<and> states ! i = exp_state y
                   \<and> replay_target a isDDQN y = Some (targets ! i)"
    if "i < length (b # batch)" for i
  proof (cases i)
    case 0
    with b t st show ?thesis
      by simp
  next
    case (Suc j)
    with that IH(3) st show ?thesis
      by simp
  qed
  with IH(1,2) st show ?case
    by simp
qed

lemma replay_SomeD:
  assumes "replay a isDDQN r = Some (a', r')" and "batchSize a \<le> length (memory a)"
  shows "\<exists>batch rb states targets.
           sampleBatch a (batchSize a) r = Some (batch, rb)
           \<and> replay_rows a isDDQN batch = Some (states, targets)
           \<and> DQN_update (model a) states targets rb = Some (model a', r')
           \<and> a' = a\<lparr>model := model a'\<rparr>"
  using assms
  by (auto simp: replay_def split: option.splits)

text \<open>
  C6. On a terminal step whose action is on the wrong side of the gap (a jump with the bird
  above the gap centre, that is with a positive offset to it, or no jump with the bird below
  it, the offset being taken after the tick as the code does), the reward of the environment
  is exactly -15. For a transition with \<open>done = true\<close>, the row of targets that the
  learning step builds is the row that the network predicts for its state, with the reward
  put at the action taken and no discounted future value added. And the learning step,
  when the memory holds a batch, hands to \<open>update\<close> of the model one state and one row of
  targets for each transition sampled, this row for every transition that is done: the
  model it leaves is the one that \<open>update\<close> returns for these states and targets, and it
  changes nothing else of the agent.
\<close>

theorem terminal_wrong_side_target:
  "(step e action r = Some (res, e', r') \<and> res_done res
      \<and> getClosestTube (game e') = Some c
      \<and> ((0 < diffY (game e') c \<and> action = JUMP) \<or> (diffY (game e') c < 0 \<and> action = STAY))
    \<longrightarrow> res_reward res = - 15)
   \<and> (exp_done x \<and> predict (model a) [exp_state x] = Some (row # others)
    \<longrightarrow> replay_target a isDDQN x = Some (row[exp_action x := exp_reward x]))
   \<and> (batchSize a \<le> length (memory a) \<and> replay a isDDQN r0 = Some (a', r1)
    \<longrightarrow> (\<exists>batch rb states targets.
           sampleBatch a (batchSize a) r0 = Some (batch, rb)
           \<and> DQN_update (model a) states targets rb = Some (model a', r1)
           \<and> a' = a\<lparr>model := model a'\<rparr>
           \<and> length states = length batch \<and> length targets = length batch
           \<and> (\<forall>i<length batch.
                 \<exists>y qValues rest.
                   batch ! i = Some y \<and> states ! i = exp_state y
                   \<and> predict (model a) [exp_state y] = Some (qValues # rest)
                   \<and> (exp_done y \<longrightarrow> targets ! i = qValues[exp_action y := exp_reward y]))))"
proof -
  have one: "res_reward res = - 15"
    if st: "step e action r = Some (res, e', r')" and dn': "res_done res"
      and ct: "getClosestTube (game e') = Some c"
      and side: "(0 < diffY (game e') c \<and> action = JUMP) \<or> (diffY (game e') c < 0 \<and> action = STAY)"
  proof -
    from step_SomeD [OF st] obtain g2 where
      cr: "calculateReward (e\<lparr>lastAction := Some action, game := g2\<rparr>)
             = Some (res_reward res, e')"
      and dn: "res_done res = (gameState (game e') = GAME_OVER)"
      by blast
    have g: "game e' = g2"
      using calculateReward_frame(1) [OF cr] by simp
    have "gameState (game (e\<lparr>lastAction := Some action, game := g2\<rparr>)) = GAME_OVER"
      using dn' dn g by simp
    from calculateReward_over [OF cr this] ct side g show ?thesis
      by (auto simp: STAY_def JUMP_def)
  qed
  have two: "replay_target a isDDQN x = Some (row[exp_action x := exp_reward x])"
    if "exp_done x" and "predict (model a) [exp_state x] = Some (row # others)"
    using that by (simp add: replay_target_def)
  have three: "\<exists>batch rb states targets.
           sampleBatch a (batchSize a) r0 = Some (batch, rb)
           \<and> DQN_update (model a) states targets rb = Some (model a', r1)
           \<and> a' = a\<lparr>model := model a'\<rparr>
           \<and> length states = length batch \<and> length targets = length batch
           \<and> (\<forall>i<length batch.
                 \<exists>y qValues rest.
                   batch ! i = Some y \<and> states ! i = exp_state y
                   \<and> predict (model a) [exp_state y] = Some (qValues # rest)
                   \<and> (exp_done y \<longrightarrow> targets ! i = qValues[exp_action y := exp_reward y]))"
    if "batchSize a \<le> length (memory a)" and "replay a isDDQN r0 = Some (a', r1)"
  proof -
    from replay_SomeD [OF that(2,1)] obtain batch rb states targets where
      sb: "sampleBatch a (batchSize a) r0 = Some (batch, rb)"
      and rows: "replay_rows a isDDQN batch = Some (states, targets)"
      and up: "DQN_update (model a) states targets rb = Some (model a', r1)"
      and a': "a' = a\<lparr>model := model a'\<rparr>"
      by blast
    note rs = replay_rows_SomeD [OF rows]
    have "\<exists>y qValues rest.
                   batch ! i = Some y \<and> states ! i = exp_state y
                   \<and> predict (model a) [exp_state y] = Some (qValues # rest)
                   \<and> (exp_done y \<longrightarrow> targets ! i = qValues[exp_action y := exp_reward y])"
      if "i < length batch" for i
    proof -
      from rs that obtain y where
        y: "batch ! i = Some y" "states ! i = exp_state y"
          "replay_target a isDDQN y = Some (targets ! i)"
        by blast
      from y(3) obtain qValues rest where
        p: "predict (model a) [exp_state y] = Some (qValues # rest)"
        by (auto simp: replay_target_def split: option.splits list.splits)
      have "targets ! i = qValues[exp_action y := exp_reward y]" if "exp_done y"
        using replay_target_done [OF y(3) that] p by simp
      with y(1,2) p show ?thesis
        by blast
    qed
    with sb up a' rs show ?thesis
      by blast
  qed
  from one two three show ?thesis
    by blast
qed

lemmas crash_defs =
  fallen_agent_def falling_agent_def taught_agent_def crash_def probe_model_def probe_net_def
  single_config_def Agent_def js_or_def dqn_defs Let_def

lemma tick_falling_agent:
  "tick never falling_agent half [1 / 2, 35 / 32, - (33 / 64), 7 / 8] 0
     = Some (fallen_agent, half, [5 / 8, 17 / 16, - (33 / 64), 7 / 8], True, - 15)"
  by (simp add: tick_def crash_defs act_def argMax_row_def falling_env_def env_defs game_consts
        pipe_mask_def remember_def training_delay_def)

lemma sampleBatch_fallen_agent:
  "sampleBatch fallen_agent 1 half = Some ([Some crash], half)"
  by (simp add: sampleBatch_def sampleBatch_loop.simps crash_defs)

lemma replay_fallen_agent:
  "replay fallen_agent True half = Some (taught_agent, half)"
  by (simp add: replay_def sampleBatch_def sampleBatch_loop.simps replay_target_def crash_defs)

theorem terminal_wrong_side_target_witness:
  "map_option (res_done \<circ> fst) (step falling_env STAY half) = Some True
   \<and> map_option (res_reward \<circ> fst) (step falling_env STAY half) = Some (- 15)
   \<and> map_option ((\<lambda>g. diffY g \<lparr>tube_x = 39, tube_y = - 10\<rparr>) \<circ> game \<circ> fst \<circ> snd)
         (step falling_env STAY half) = Some (- (33 / 2))
   \<and> tick never falling_agent half [1 / 2, 35 / 32, - (33 / 64), 7 / 8] 0
       = Some (fallen_agent, half, [5 / 8, 17 / 16, - (33 / 64), 7 / 8], True, - 15)
   \<and> memory fallen_agent = [crash] \<and> batchSize fallen_agent = 1
   \<and> exp_done crash \<and> exp_action crash = STAY \<and> exp_reward crash = - 15
   \<and> predict (model fallen_agent) [exp_state crash] = Some [[0, 0]]
   \<and> replay_target fallen_agent True crash = Some [- 15, 0]
   \<and> sampleBatch fallen_agent 1 half = Some ([Some crash], half)
   \<and> replay fallen_agent True half = Some (taught_agent, half)
   \<and> DQN_update (model fallen_agent) [exp_state crash] [[- 15, 0]] half
       = Some (model taught_agent, half)
   \<and> weights (dqn_model (model taught_agent)) = [[- 15, 0]]"
proof -
  note claim = terminal_wrong_side_target [where e = falling_env and action = STAY and r = half
      and c = "\<lparr>tube_x = 39, tube_y = - 10\<rparr>" and x = crash and a = fallen_agent
      and row = "[0, 0]" and others = "[]" and isDDQN = True and ?r0.0 = half
      and a' = taught_agent and ?r1.0 = half]
  have facts: "memory fallen_agent = [crash]" "batchSize fallen_agent = 1"
    "exp_done crash" "exp_action crash = STAY" "exp_reward crash = - 15"
    "predict (model fallen_agent) [exp_state crash] = Some [[0, 0]]"
    "weights (dqn_model (model taught_agent)) = [[- 15, 0]]"
    by (simp_all add: crash_defs STAY_def)
  have stepped: "map_option (res_done \<circ> fst) (step falling_env STAY half) = Some True"
    "map_option ((\<lambda>g. diffY g \<lparr>tube_x = 39, tube_y = - 10\<rparr>) \<circ> game \<circ> fst \<circ> snd)
         (step falling_env STAY half) = Some (- (33 / 2))"
    "map_option (getClosestTube \<circ> game \<circ> fst \<circ> snd) (step falling_env STAY half)
       = Some (Some \<lparr>tube_x = 39, tube_y = - 10\<rparr>)"
    by (simp_all add: step_falling_env)
       (simp_all add: getClosestTube_def closer_def diffY_def game_consts)
  from claim [THEN conjunct1] step_falling_env stepped
  have reward: "map_option (res_reward \<circ> fst) (step falling_env STAY half) = Some (- 15)"
    by (simp add: STAY_def)
  from claim [THEN conjunct2, THEN conjunct1] facts
  have target: "replay_target fallen_agent True crash = Some [- 15, 0]"
    by (simp add: STAY_def)
  from claim [THEN conjunct2, THEN conjunct2] facts(1,2) replay_fallen_agent
  obtain batch rb states targets where
    sb: "sampleBatch fallen_agent (batchSize fallen_agent) half = Some (batch, rb)"
    and up: "DQN_update (model fallen_agent) states targets rb = Some (model taught_agent, half)"
    and len: "length states = length batch" "length targets = length batch"
    and rows: "\<forall>i<length batch.
                 \<exists>y qValues rest.
                   batch ! i = Some y \<and> states ! i = exp_state y
                   \<and> predict (model fallen_agent) [exp_state y] = Some (qValues # rest)
                   \<and> (exp_done y \<longrightarrow> targets ! i = qValues[exp_action y := exp_reward y])"
    by auto
  from sb facts(2) sampleBatch_fallen_agent have batch: "batch = [Some crash]" and rb: "rb = half"
    by simp_all
  from rows batch facts have "states ! 0 = exp_state crash" and "targets ! 0 = [- 15, 0]"
    by (auto simp: STAY_def)
  with len batch have "states = [exp_state crash]" and "targets = [[- 15, 0]]"
    by (auto simp: length_Suc_conv)
  with up rb have update: "DQN_update (model fallen_agent) [exp_state crash] [[- 15, 0]] half
       = Some (model taught_agent, half)"
    by simp
  from facts stepped(1,2) reward target update tick_falling_agent sampleBatch_fallen_agent
    replay_fallen_agent
  show ?thesis
    by simp
qed

section \<open>The replay memory\<close>

lemma experience_eta:
  "\<lparr>exp_state = exp_state x, exp_action = exp_action x, exp_reward = exp_reward x,
    exp_nextState = exp_nextState x, exp_done = exp_done x\<rparr> = x"
  by (cases x) simp

lemma remember_exp_fields:
  "memoryMaxLen (remember_exp a x) = memoryMaxLen a"
  "memoryIndex (remember_exp a x) = memoryIndex a + 1"
  "length (memory a) < memoryMaxLen a \<Longrightarrow> memory (remember_exp a x) = memory a @ [x]"
  "\<not> length (memory a) < memoryMaxLen a \<Longrightarrow> 0 < memoryMaxLen a \<Longrightarrow>
     memory (remember_exp a x) = (memory a)[memoryIndex a mod memoryMaxLen a := x]"
  by (simp_all add: remember_exp_def remember_def Let_def experience_eta)

lemma remember_all_snoc: "remember_all a (xs @ [x]) = remember_exp (remember_all a xs) x"
  by (simp add: remember_all_def)

lemma mod_window_distinct:
  fixes j k C :: nat
  assumes "j < k" and "k < j + C"
  shows "j mod C \<noteq> k mod C"
proof
  assume "j mod C = k mod C"
  then have "(k - j) mod C = 0"
    using assms(1) by (metis less_imp_le_nat mod_eq_dvd_iff_nat dvd_imp_mod_0)
  moreover have "0 < k - j" and "k - j < C"
    using assms by auto
  ultimately show False
    by simp
qed

text \<open>
  The invariant of the ring: after the insertions \<open>xs\<close> into an empty memory of capacity
  \<open>C\<close>, the write counter is \<open>length xs\<close>, the size is \<open>min (length xs) C\<close>, and each of the
  last \<open>C\<close> insertions \<open>j\<close> sits in slot \<open>j mod C\<close>.
\<close>

lemma ring_invariant:
  assumes "memory a = []" and "memoryIndex a = 0" and "memoryMaxLen a = C" and "0 < C"
  shows "memoryMaxLen (remember_all a xs) = C
         \<and> memoryIndex (remember_all a xs) = length xs
         \<and> length (memory (remember_all a xs)) = min (length xs) C
         \<and> (\<forall>j < length xs. length xs \<le> j + C \<longrightarrow>
               memory (remember_all a xs) ! (j mod C) = xs ! j)"
proof (induction xs rule: rev_induct)
  case Nil
  then show ?case
    using assms by (simp add: remember_all_def)
next
  case (snoc x xs)
  let ?b = "remember_all a xs"
  let ?k = "length xs"
  from snoc have cap: "memoryMaxLen ?b = C" and idx: "memoryIndex ?b = ?k"
    and len: "length (memory ?b) = min ?k C"
    and slots: "\<And>j. j < ?k \<Longrightarrow> ?k \<le> j + C \<Longrightarrow> memory ?b ! (j mod C) = xs ! j"
    by auto
  show ?case
  proof (cases "?k < C")
    case True
    then have mem: "memory (remember_exp ?b x) = memory ?b @ [x]"
      using remember_exp_fields(3) [of ?b x] cap len by simp
    have "memory (remember_exp ?b x) ! (j mod C) = (xs @ [x]) ! j"
      if "j < Suc ?k" and "Suc ?k \<le> j + C" for j
    proof (cases "j = ?k")
      case True
      then show ?thesis
        using \<open>?k < C\<close> mem len by (simp add: nth_append)
    next
      case False
      then have "j < ?k"
        using that by simp
      then show ?thesis
        using \<open>?k < C\<close> mem len slots [of j] by (simp add: nth_append)
    qed
    then show ?thesis
      using True mem len cap idx by (simp add: remember_all_snoc remember_exp_fields(1,2))
  next
    case False
    then have mem: "memory (remember_exp ?b x) = (memory ?b)[?k mod C := x]"
      using remember_exp_fields(4) [of ?b x] cap len idx assms(4) by simp
    have full: "length (memory ?b) = C"
      using False len by simp
    have "memory (remember_exp ?b x) ! (j mod C) = (xs @ [x]) ! j"
      if "j < Suc ?k" and "Suc ?k \<le> j + C" for j
    proof (cases "j = ?k")
      case True
      then show ?thesis
        using mem full assms(4) by simp
    next
      case False
      then have "j < ?k"
        using that by simp
      moreover have "j mod C \<noteq> ?k mod C"
        using mod_window_distinct [of j ?k C] \<open>j < ?k\<close> that by simp
      ultimately show ?thesis
        using mem slots [of j] that by (simp add: nth_append)
    qed
    then show ?thesis
      using False mem full cap idx by (simp add: remember_all_snoc remember_exp_fields(1,2))
  qed
qed

lemma latest_slot:
  fixes i k C :: nat
  assumes "i < C" and "C \<le> k"
  shows "\<exists>j < k. j mod C = i \<and> k \<le> j + C \<and> (\<forall>j' < k. j' mod C = i \<longrightarrow> j' \<le> j)"
proof -
  define j where "j = i + (k - 1 - i) div C * C"
  have "(k - 1 - i) div C * C \<le> k - 1 - i"
    by simp
  then have lt: "j < k"
    using assms unfolding j_def by linarith
  have md: "j mod C = i"
    using assms by (simp add: j_def)
  have "k - 1 - i < (k - 1 - i) div C * C + C"
    using assms(1) by (metis add.commute dividend_less_div_times less_nat_zero_code
        mult.commute neq0_conv)
  then have up: "k \<le> j + C"
    using assms unfolding j_def by linarith
  have "j' \<le> j" if "j' < k" and "j' mod C = i" for j'
  proof (rule ccontr)
    assume "\<not> j' \<le> j"
    then have "j < j'" by simp
    moreover have "j' < j + C" using that(1) up by simp
    ultimately have "j mod C \<noteq> j' mod C"
      by (rule mod_window_distinct)
    then show False
      using md that(2) by simp
  qed
  with lt md up show ?thesis
    by blast
qed

text \<open>
  C4. For every sequence of insertions into an empty replay memory of capacity \<open>C\<close>, once
  at least \<open>C\<close> transitions have been inserted the size is \<open>C\<close>, and every slot \<open>i\<close> holds
  the most recent insertion whose number, counted from 0, is congruent to \<open>i\<close> modulo \<open>C\<close>;
  and at no point of the sequence does the size exceed \<open>C\<close>.
\<close>

theorem replay_memory_ring:
  assumes "memory a = []" and "memoryIndex a = 0" and "memoryMaxLen a = C" and "0 < C"
    and "C \<le> length xs"
  shows "length (memory (remember_all a xs)) = C
         \<and> (\<forall>i < C. \<exists>j < length xs.
               j mod C = i \<and> (\<forall>j' < length xs. j' mod C = i \<longrightarrow> j' \<le> j)
               \<and> memory (remember_all a xs) ! i = xs ! j)
         \<and> (\<forall>n. length (memory (remember_all a (take n xs))) \<le> C)"
proof -
  note inv = ring_invariant [OF assms(1-4)]
  have size: "length (memory (remember_all a xs)) = C"
    using inv [of xs] assms(5) by simp
  have slot: "\<exists>j < length xs.
               j mod C = i \<and> (\<forall>j' < length xs. j' mod C = i \<longrightarrow> j' \<le> j)
               \<and> memory (remember_all a xs) ! i = xs ! j" if "i < C" for i
  proof -
    from latest_slot [OF that assms(5)] obtain j where
      j: "j < length xs" "j mod C = i" "length xs \<le> j + C"
        "\<forall>j' < length xs. j' mod C = i \<longrightarrow> j' \<le> j"
      by blast
    have "memory (remember_all a xs) ! (j mod C) = xs ! j"
      using inv [of xs] j(1,3) by blast
    with j show ?thesis
      by auto
  qed
  have bound: "length (memory (remember_all a (take n xs))) \<le> C" for n
    using inv [of "take n xs"] by simp
  from size slot bound show ?thesis
    by blast
qed

theorem replay_memory_ring_witness:
  "memoryMaxLen (agent0\<lparr>memoryMaxLen := 2\<rparr>) = 2
   \<and> memory (remember_all (agent0\<lparr>memoryMaxLen := 2\<rparr>) [numbered 0, numbered 1, numbered 2])
       = [numbered 2, numbered 1]
   \<and> length (memory (remember_all (agent0\<lparr>memoryMaxLen := 2\<rparr>)
         [numbered 0, numbered 1, numbered 2])) = 2"
  using replay_memory_ring [of "agent0\<lparr>memoryMaxLen := 2\<rparr>" 2
      "[numbered 0, numbered 1, numbered 2]"]
  by (simp add: remember_all_def remember_exp_def remember_def agent0_def Agent_def Let_def
        experience_eta)

section \<open>Sampling\<close>

lemma draw_in_range:
  assumes "0 \<le> u" and "u < 1" and "mem \<noteq> []"
  shows "0 \<le> \<lfloor>u * real (length mem)\<rfloor> \<and> nat \<lfloor>u * real (length mem)\<rfloor> < length mem"
proof -
  have pos: "0 < real (length mem)"
    using assms(3) by simp
  have "u * real (length mem) < real (length mem)"
    using assms(2) pos by simp
  then have "\<lfloor>u * real (length mem)\<rfloor> < int (length mem)"
    by (simp add: floor_less_iff)
  moreover have "0 \<le> \<lfloor>u * real (length mem)\<rfloor>"
    using assms(1) pos by simp
  ultimately show ?thesis
    by linarith
qed

lemma draws_Suc:
  "(\<lambda>k. f (r k)) ` {..<Suc m} = insert (f (r 0)) ((\<lambda>k. f (r (Suc k))) ` {..<m})"
  by (simp add: lessThan_Suc_eq_insert_0 image_image)

text \<open>
  The loop returns as soon as the numbers drawn have hit enough distinct slots, and what
  it returns then is the list of the transitions in the slots drawn, each slot once.
\<close>

lemma sampleBatch_loop_total:
  assumes "\<forall>k. 0 \<le> r k \<and> r k < 1" and "mem \<noteq> []"
    and "distinct indices" and "length indices \<le> sz"
    and "\<forall>i \<in> set indices. 0 \<le> i \<and> nat i < length mem"
    and "batch = map (\<lambda>i. Some (mem ! nat i)) indices"
    and "sz \<le> card (set indices \<union> (\<lambda>k. \<lfloor>r k * real (length mem)\<rfloor>) ` {..<m})"
  shows "\<exists>idx r'. sampleBatch_loop mem sz indices batch r
                     = Some (map (\<lambda>i. Some (mem ! nat i)) idx, r')
           \<and> distinct idx \<and> length idx = sz
           \<and> (\<forall>i \<in> set idx. 0 \<le> i \<and> nat i < length mem)"
  using assms
proof (induction m arbitrary: indices batch r)
  case 0
  then have "length indices = sz"
    by (simp add: distinct_card)
  with 0 show ?case
    by (subst sampleBatch_loop.simps) auto
next
  case (Suc m)
  show ?case
  proof (cases "length indices < sz")
    case False
    with Suc.prems show ?thesis
      by (subst sampleBatch_loop.simps) auto
  next
    case True
    let ?r' = "\<lambda>n. r (Suc n)"
    let ?i = "\<lfloor>r 0 * real (length mem)\<rfloor>"
    have range': "\<forall>k. 0 \<le> ?r' k \<and> ?r' k < 1"
      using Suc.prems(1) by simp
    have in_range: "0 \<le> ?i \<and> nat ?i < length mem"
      using draw_in_range [of "r 0" mem] Suc.prems(1,2) by simp
    have cover: "sz \<le> card (insert ?i (set indices)
                    \<union> (\<lambda>k. \<lfloor>?r' k * real (length mem)\<rfloor>) ` {..<m})"
      using Suc.prems(7) draws_Suc [of "\<lambda>u. \<lfloor>u * real (length mem)\<rfloor>" r m] by simp
    show ?thesis
    proof (cases "?i \<in> set indices")
      case True
      then have "insert ?i (set indices) = set indices"
        by auto
      with cover have "sz \<le> card (set indices
                    \<union> (\<lambda>k. \<lfloor>?r' k * real (length mem)\<rfloor>) ` {..<m})"
        by simp
      from Suc.IH [OF range' Suc.prems(2-6) this] True \<open>length indices < sz\<close>
      show ?thesis
        by (subst sampleBatch_loop.simps) (simp add: Math_random_def Let_def)
    next
      case False
      let ?indices = "indices @ [?i]"
      let ?batch = "batch @ [Some (mem ! nat ?i)]"
      have a: "distinct ?indices"
        using False Suc.prems(3) by simp
      have b: "length ?indices \<le> sz"
        using \<open>length indices < sz\<close> by simp
      have c: "\<forall>i \<in> set ?indices. 0 \<le> i \<and> nat i < length mem"
        using in_range Suc.prems(5) by auto
      have d: "?batch = map (\<lambda>i. Some (mem ! nat i)) ?indices"
        using Suc.prems(6) by simp
      have e: "sz \<le> card (set ?indices \<union> (\<lambda>k. \<lfloor>?r' k * real (length mem)\<rfloor>) ` {..<m})"
        using cover by simp
      from Suc.IH [OF range' Suc.prems(2) a b c d e] False in_range \<open>length indices < sz\<close>
      show ?thesis
        by (subst sampleBatch_loop.simps) (simp add: Math_random_def Let_def)
    qed
  qed
qed

lemma sampleBatch_loop_partial:
  assumes "sampleBatch_loop mem sz indices batch r = Some y"
    and "\<forall>k. 0 \<le> r k \<and> r k < 1" and "mem \<noteq> []"
    and "distinct indices" and "length indices \<le> sz"
    and "\<forall>i \<in> set indices. 0 \<le> i \<and> nat i < length mem"
    and "batch = map (\<lambda>i. Some (mem ! nat i)) indices"
  shows "\<exists>idx. fst y = map (\<lambda>i. Some (mem ! nat i)) idx
           \<and> distinct idx \<and> length idx = sz
           \<and> (\<forall>i \<in> set idx. 0 \<le> i \<and> nat i < length mem)"
  using assms
proof (induct mem sz indices batch r y rule: sampleBatch_loop.raw_induct [rotated 1, consumes 1])
  case (1 loop mem sz indices batch r y)
  note IH = "1"(1) and body = "1"(2) and prems = "1"(3-8)
  show ?case
  proof (cases "length indices < sz")
    case False
    with prems body show ?thesis
      by auto
  next
    case True
    let ?r' = "\<lambda>n. r (Suc n)"
    let ?i = "\<lfloor>r 0 * real (length mem)\<rfloor>"
    have range': "\<forall>k. 0 \<le> ?r' k \<and> ?r' k < 1"
      using prems(1) by simp
    have in_range: "0 \<le> ?i \<and> nat ?i < length mem"
      using draw_in_range [of "r 0" mem] prems(1,2) by simp
    show ?thesis
    proof (cases "?i \<in> set indices")
      case True
      with \<open>length indices < sz\<close> body have "loop mem sz indices batch ?r' = Some y"
        by (simp add: Math_random_def Let_def)
      from IH [OF this range' prems(2-6)] show ?thesis .
    next
      case False
      let ?indices = "indices @ [?i]"
      let ?batch = "batch @ [Some (mem ! nat ?i)]"
      from False in_range \<open>length indices < sz\<close> body
      have run: "loop mem sz ?indices ?batch ?r' = Some y"
        by (simp add: Math_random_def Let_def)
      have a: "distinct ?indices"
        using False prems(3) by simp
      have b: "length ?indices \<le> sz"
        using \<open>length indices < sz\<close> by simp
      have c: "\<forall>i \<in> set ?indices. 0 \<le> i \<and> nat i < length mem"
        using in_range prems(5) by auto
      have d: "?batch = map (\<lambda>i. Some (mem ! nat i)) ?indices"
        using prems(6) by simp
      from IH [OF run range' prems(2) a b c d] show ?thesis .
    qed
  qed
qed

text \<open>
  C5. For a memory of size \<open>s\<close> and \<open>1 \<le> n \<le> s\<close>, with \<open>Math.random()\<close> returning numbers
  of the interval from 0 (included) to 1 (excluded): \<open>sampleBatch(n)\<close> returns as soon as the
  numbers drawn have hit \<open>n\<close> distinct slots (before that the loop keeps drawing), and
  whenever it returns, it returns exactly \<open>n\<close> transitions, which are the contents of \<open>n\<close>
  distinct slots of the memory. The call only reads the memory, and the learning step that
  calls it returns the agent with the memory it had.
\<close>

theorem sampleBatch_valid:
  assumes "\<forall>k. 0 \<le> r k \<and> r k < 1" and "1 \<le> n" and "n \<le> length (memory a)"
  shows "(n \<le> card ((\<lambda>k. \<lfloor>r k * real (length (memory a))\<rfloor>) ` {..<m})
            \<longrightarrow> sampleBatch a n r \<noteq> None)
         \<and> (\<forall>batch r'. sampleBatch a n r = Some (batch, r') \<longrightarrow>
               length batch = n
               \<and> (\<exists>idx. distinct idx \<and> length idx = n
                     \<and> (\<forall>i \<in> set idx. i < length (memory a))
                     \<and> batch = map (\<lambda>i. Some (memory a ! i)) idx))
         \<and> (\<forall>isDDQN a' r'. replay a isDDQN r = Some (a', r') \<longrightarrow> memory a' = memory a)"
proof -
  have ne: "memory a \<noteq> []"
    using assms(2,3) by auto
  have total: "sampleBatch a n r \<noteq> None"
    if "n \<le> card ((\<lambda>k. \<lfloor>r k * real (length (memory a))\<rfloor>) ` {..<m})"
    using sampleBatch_loop_total [of r "memory a" "[]" n "[]" m] assms(1) ne that
    by (auto simp: sampleBatch_def)
  have partial: "length batch = n
               \<and> (\<exists>idx. distinct idx \<and> length idx = n
                     \<and> (\<forall>i \<in> set idx. i < length (memory a))
                     \<and> batch = map (\<lambda>i. Some (memory a ! i)) idx)"
    if "sampleBatch a n r = Some (batch, r')" for batch r'
  proof -
    from that have "sampleBatch_loop (memory a) n [] [] r = Some (batch, r')"
      by (simp add: sampleBatch_def)
    from sampleBatch_loop_partial [OF this assms(1) ne] obtain ids where
      ids: "batch = map (\<lambda>i. Some (memory a ! nat i)) ids" "distinct ids" "length ids = n"
        "\<forall>i \<in> set ids. 0 \<le> i \<and> nat i < length (memory a)"
      by auto
    have "inj_on nat (set ids)"
      using ids(4) by (metis eq_nat_nat_iff inj_onI)
    then have "distinct (map nat ids)"
      using ids(2) by (simp add: distinct_map)
    moreover have "batch = map (\<lambda>i. Some (memory a ! i)) (map nat ids)"
      using ids(1) by (simp add: comp_def)
    moreover have "\<forall>i \<in> set (map nat ids). i < length (memory a)"
      using ids(4) by auto
    ultimately show ?thesis
      using ids(1,3) by (metis length_map)
  qed
  have frame: "memory a' = memory a" if "replay a isDDQN r = Some (a', r')" for isDDQN a' r'
    using that by (auto simp: replay_def split: if_splits option.splits)
  from total partial frame show ?thesis
    by blast
qed

lemma memory_agent2: "memory agent2 = [numbered 0, numbered 1]"
  by (simp add: agent2_def remember_all_def remember_exp_def remember_def agent0_def Agent_def
        js_or_def app_config_def Let_def experience_eta)

theorem sampleBatch_valid_witness:
  "map_option fst (sampleBatch agent2 2 alternate)
     = Some [Some (numbered 0), Some (numbered 1)]
   \<and> sampleBatch agent2 2 alternate \<noteq> None
   \<and> card ((\<lambda>k. \<lfloor>alternate k * real (length (memory agent2))\<rfloor>) ` {..<2}) = 2"
proof -
  have range: "\<forall>k. 0 \<le> alternate k \<and> alternate k < 1"
    by (simp add: alternate_def)
  have "{..<2::nat} = {0, 1}"
    by auto
  then have draws: "card ((\<lambda>k. \<lfloor>alternate k * real (length (memory agent2))\<rfloor>) ` {..<2}) = 2"
    by (simp add: memory_agent2 alternate_def)
  have run: "map_option fst (sampleBatch agent2 2 alternate)
     = Some [Some (numbered 0), Some (numbered 1)]"
    by (simp add: sampleBatch_def memory_agent2 sampleBatch_loop.simps Math_random_def
          alternate_def Let_def)
  from sampleBatch_valid [OF range, of 2 agent2 2] draws run show ?thesis
    by (simp add: memory_agent2)
qed

text \<open>
  The condition on the numbers drawn cannot be dropped: with a source that returns 0.5 at
  every call, every draw from a memory of two transitions hits slot 1, and \<open>sampleBatch(2)\<close>
  never returns.
\<close>

lemma sampleBatch_loop_constant_source:
  assumes "sampleBatch_loop mem sz indices batch r = Some y"
    and "length mem = 2" and "sz = 2" and "r = half"
    and "set indices \<subseteq> {1}" and "distinct indices"
  shows False
  using assms
proof (induct mem sz indices batch r y rule: sampleBatch_loop.raw_induct [rotated 1, consumes 1])
  case (1 loop mem sz indices batch r y)
  note IH = "1"(1) and body = "1"(2) and prems = "1"(3-7)
  have "card (set indices) \<le> card {1::int}"
    using prems(4) by (intro card_mono) auto
  then have short: "length indices < sz"
    using prems(2,5) by (simp add: distinct_card)
  show ?case
  proof (cases "1 \<in> set indices")
    case True
    with short body prems(1,3) have "loop mem sz indices batch half = Some y"
      by (simp add: Let_def)
    from IH [OF this prems(1,2) refl prems(4,5)] show ?thesis .
  next
    case False
    with short body prems(1,3)
    have run: "loop mem sz (indices @ [1]) (batch @ [Some (mem ! 1)]) half = Some y"
      by (simp add: Let_def)
    have "set (indices @ [1]) \<subseteq> {1}" and "distinct (indices @ [1])"
      using False prems(4,5) by auto
    from IH [OF run prems(1,2) refl this] show ?thesis .
  qed
qed

lemma sampleBatch_constant_source: "sampleBatch agent2 2 half = None"
proof (cases "sampleBatch agent2 2 half")
  case None
  then show ?thesis .
next
  case (Some y)
  then have "sampleBatch_loop (memory agent2) 2 [] [] half = Some y"
    by (simp add: sampleBatch_def)
  from sampleBatch_loop_constant_source [OF this] show ?thesis
    by (simp add: memory_agent2)
qed

section \<open>Episodes\<close>

lemma same_learning_refl [simp]: "same_learning a a"
  by (simp add: same_learning_def)

lemma same_learning_trans:
  "same_learning a b \<Longrightarrow> same_learning b c \<Longrightarrow> same_learning a c"
  by (simp add: same_learning_def)

lemma remember_frame:
  "same_learning a (remember a s act_taken rew s' d)"
  "currentEpisodeState (remember a s act_taken rew s' d) = currentEpisodeState a"
  "isPaused (remember a s act_taken rew s' d) = isPaused a"
  "isTraining (remember a s act_taken rew s' d) = isTraining a"
  "totalSteps (remember a s act_taken rew s' d) = totalSteps a"
  "env (remember a s act_taken rew s' d) = env a"
  by (simp_all add: remember_def same_learning_def Let_def)

lemma training_delay_frame:
  assumes "training_delay h a r = Some (a', r')"
  shows "same_learning a a'"
    and "currentEpisodeState a' = currentEpisodeState a"
    and "isPaused a' = isPaused a"
    and "isTraining a' \<Longrightarrow> isTraining a"
    and "totalSteps a' = totalSteps a"
    and "memory a' = memory a"
  using assms
  by (auto simp: training_delay_def sleep_def stop_def same_learning_def
      split: option.splits if_splits)

lemma training_delay_never [simp]: "training_delay never a r = Some (a, r)"
  by (simp add: training_delay_def sleep_def never_def split: option.splits)


lemma ticked_frame:
  "same_learning a ((remember (a\<lparr>env := e\<rparr>) s act_taken rew s' d)\<lparr>totalSteps := k\<rparr>)"
  "currentEpisodeState ((remember (a\<lparr>env := e\<rparr>) s act_taken rew s' d)\<lparr>totalSteps := k\<rparr>)
     = currentEpisodeState a"
  "isPaused ((remember (a\<lparr>env := e\<rparr>) s act_taken rew s' d)\<lparr>totalSteps := k\<rparr>) = isPaused a"
  "isTraining ((remember (a\<lparr>env := e\<rparr>) s act_taken rew s' d)\<lparr>totalSteps := k\<rparr>)
     = isTraining a"
  "totalSteps (remember (a\<lparr>env := e\<rparr>) s act_taken rew s' d) = totalSteps a"
  by (simp_all add: remember_def same_learning_def Let_def)

text \<open>
  A tick under a schedule is the tick with no stop request, followed by the delay in which
  the request may arrive and the render loop may update the game.
\<close>

lemma tick_shape:
  assumes "tick h a r s tot = Some (a', r', s', d', tot')"
  shows "\<exists>b rb. tick never a r s tot = Some (b, rb, s', d', tot')
           \<and> training_delay h b rb = Some (a', r')
           \<and> same_learning a b
           \<and> currentEpisodeState b = currentEpisodeState a
           \<and> isPaused b = isPaused a
           \<and> isTraining b = isTraining a
           \<and> totalSteps b = totalSteps a + 1"
  using assms
  by (auto simp: tick_def Let_def ticked_frame split: option.splits prod.splits)

lemma tick_frame:
  assumes "tick h a r s tot = Some (a', r', s', d', tot')"
  shows "same_learning a a'"
    and "currentEpisodeState a' = currentEpisodeState a"
    and "isPaused a' = isPaused a"
    and "isTraining a' \<Longrightarrow> isTraining a"
    and "totalSteps a' = totalSteps a + 1"
proof -
  from tick_shape [OF assms] obtain b rb where
    td: "training_delay h b rb = Some (a', r')"
    and b: "same_learning a b"
      "currentEpisodeState b = currentEpisodeState a" "isPaused b = isPaused a"
      "isTraining b = isTraining a" "totalSteps b = totalSteps a + 1"
    by blast
  note fr = training_delay_frame [OF td]
  show "same_learning a a'"
    using b(1) fr(1) by (rule same_learning_trans)
  show "currentEpisodeState a' = currentEpisodeState a"
    using b fr by simp
  show "isPaused a' = isPaused a"
    using b fr by simp
  show "totalSteps a' = totalSteps a + 1"
    using b fr by simp
  show "isTraining a" if "isTraining a'"
    using that fr(4) b by simp
qed





lemma rollout_unfold_stop:
  assumes "\<not> (\<not> d \<and> n < maxSteps \<and> isTraining a)"
  shows "rollout h a r s d tot n = Some (Ended a r s d tot n)"
  using assms by (subst rollout.simps) auto

lemma rollout_unfold_fail:
  assumes "\<not> d \<and> n < maxSteps \<and> isTraining a" and "tick h a r s tot = None"
  shows "rollout h a r s d tot n = None"
  using assms by (subst rollout.simps) auto

lemma rollout_unfold_pause:
  assumes "\<not> d \<and> n < maxSteps \<and> isTraining a"
    and "tick h a r s tot = Some (a', r', s', d', tot')"
    and "\<not> isTraining a' \<and> \<not> d'"
  shows "rollout h a r s d tot n =
           Some (Paused
                  (a'\<lparr>currentEpisodeState :=
                         Some \<lparr>es_state = s', es_done = d', es_totalReward = tot',
                               es_steps = n + 1\<rparr>,
                       isPaused := True\<rparr>) r')"
  using assms by (subst rollout.simps) auto

lemma rollout_unfold_step:
  assumes "\<not> d \<and> n < maxSteps \<and> isTraining a"
    and "tick h a r s tot = Some (a', r', s', d', tot')"
    and "\<not> (\<not> isTraining a' \<and> \<not> d')"
  shows "rollout h a r s d tot n = rollout h a' r' s' d' tot' (n + 1)"
  using assms by (subst rollout.simps) auto

text \<open>
  What the loop leaves alone, and how it is left: by the pause exit with the snapshot saved,
  the pause flag set and the training stopped, or by its condition with the saved episode
  state and the pause flag as they were.
\<close>

lemma rollout_frame:
  assumes "rollout h a r s d tot n = Some ex"
  shows "same_learning a (exit_agent ex)
         \<and> (case ex of
               Paused a1 r1 \<Rightarrow>
                 isPaused a1 \<and> \<not> isTraining a1
                 \<and> (\<exists>snap. currentEpisodeState a1 = Some snap \<and> \<not> es_done snap
                       \<and> n < es_steps snap)
             | Ended a1 r1 s1 d1 tot1 n1 \<Rightarrow>
                 currentEpisodeState a1 = currentEpisodeState a \<and> isPaused a1 = isPaused a)"
  using assms
proof (induction h a r s d tot n arbitrary: ex rule: rollout.induct)
  case (1 h a r s d tot n)
  show ?case
  proof (cases "\<not> d \<and> n < maxSteps \<and> isTraining a")
    case False
    from rollout_unfold_stop [OF this] "1.prems" show ?thesis
      by auto
  next
    case True
    show ?thesis
    proof (cases "tick h a r s tot")
      case None
      from rollout_unfold_fail [OF True this] "1.prems" show ?thesis
        by simp
    next
      case (Some x)
      then obtain a' r' s' d' tot' where tk: "tick h a r s tot = Some (a', r', s', d', tot')"
        by (cases x) auto
      note fr = tick_frame [OF tk]
      show ?thesis
      proof (cases "\<not> isTraining a' \<and> \<not> d'")
        case True
        from rollout_unfold_pause [OF \<open>\<not> d \<and> n < maxSteps \<and> isTraining a\<close> tk this] "1.prems"
        have "ex = Paused
                  (a'\<lparr>currentEpisodeState :=
                         Some \<lparr>es_state = s', es_done = d', es_totalReward = tot',
                               es_steps = n + 1\<rparr>,
                       isPaused := True\<rparr>) r'"
          by simp
        with fr(1) True show ?thesis
          by (simp add: same_learning_def)
      next
        case False
        from rollout_unfold_step [OF True tk False] "1.prems"
        have run: "rollout h a' r' s' d' tot' (n + 1) = Some ex"
          by simp
        from "1.IH" [OF True tk _ _ _ _ False run]
        have "same_learning a' (exit_agent ex)
         \<and> (case ex of
               Paused a1 r1 \<Rightarrow>
                 isPaused a1 \<and> \<not> isTraining a1
                 \<and> (\<exists>snap. currentEpisodeState a1 = Some snap \<and> \<not> es_done snap
                       \<and> n + 1 < es_steps snap)
             | Ended a1 r1 s1 d1 tot1 n1 \<Rightarrow>
                 currentEpisodeState a1 = currentEpisodeState a' \<and> isPaused a1 = isPaused a')"
          by simp
        with fr show ?thesis
          by (auto simp: same_learning_def split: loop_exit.splits)
      qed
    qed
  qed
qed




lemma sync_target_frame:
  "epsilon (sync_target isDDQN a) = epsilon a"
  "epsilonMin (sync_target isDDQN a) = epsilonMin a"
  "epsilonDecay (sync_target isDDQN a) = epsilonDecay a"
  "episode (sync_target isDDQN a) = episode a"
  "targetUpdateFreq (sync_target isDDQN a) = targetUpdateFreq a"
  "episodeRewards (sync_target isDDQN a) = episodeRewards a"
  "episodeScores (sync_target isDDQN a) = episodeScores a"
  "episodeLengths (sync_target isDDQN a) = episodeLengths a"
  "isTraining (sync_target isDDQN a) = isTraining a"
  "isPaused (sync_target isDDQN a) = isPaused a"
  "currentEpisodeState (sync_target isDDQN a) = currentEpisodeState a"
  "dqn_model (model (sync_target isDDQN a)) = dqn_model (model a)"
  "stateDim (model (sync_target isDDQN a)) = stateDim (model a)"
  "actionDim (model (sync_target isDDQN a)) = actionDim (model a)"
  "trainingDelay (sync_target isDDQN a) = trainingDelay a"
  by (simp_all add: sync_target_def updateTarget_def split: option.splits)


lemma begin_episode_frame:
  assumes "begin_episode isDDQN a r = Some (b, rb, s, d, tot, n)"
  shows "epsilon b = epsilon a" and "epsilonMin b = epsilonMin a"
    and "epsilonDecay b = epsilonDecay a" and "episode b = episode a"
    and "targetUpdateFreq b = targetUpdateFreq a"
    and "episodeRewards b = episodeRewards a" and "episodeScores b = episodeScores a"
    and "episodeLengths b = episodeLengths a" and "isTraining b = isTraining a"
    and "currentEpisodeState b = currentEpisodeState a"
    and "model b = model (sync_target isDDQN a)"
    and "trainingDelay b = trainingDelay a"
  using assms
  by (auto simp: begin_episode_def Let_def sync_target_frame
      split: option.splits if_splits)

lemma begin_episode_resume:
  assumes "currentEpisodeState a = Some saved" and "isPaused a"
  shows "begin_episode isDDQN a r =
           Some ((sync_target isDDQN a)\<lparr>isPaused := False\<rparr>, r, es_state saved,
                 es_done saved, es_totalReward saved, es_steps saved)"
  using assms by (simp add: begin_episode_def Let_def sync_target_frame)

lemma replay_frame:
  assumes "replay a isDDQN r = Some (a', r')"
  shows "epsilon a' = epsilon a" and "epsilonMin a' = epsilonMin a"
    and "epsilonDecay a' = epsilonDecay a" and "episode a' = episode a"
    and "episodeRewards a' = episodeRewards a" and "episodeScores a' = episodeScores a"
    and "episodeLengths a' = episodeLengths a" and "isTraining a' = isTraining a"
    and "currentEpisodeState a' = currentEpisodeState a" and "isPaused a' = isPaused a"
    and "env a' = env a"
  using assms by (auto simp: replay_def split: if_splits option.splits)

lemma finish_episode_effect:
  assumes "finish_episode isDDQN a r tot n = Some (a', r', res)"
  shows "epsilon a' = max (epsilonMin a) (epsilon a * epsilonDecay a)"
    and "epsilonMin a' = epsilonMin a" and "epsilonDecay a' = epsilonDecay a"
    and "episode a' = episode a + 1"
    and "episodeRewards a' = episodeRewards a @ [tot]"
    and "episodeScores a' = episodeScores a @ [score (game (env a))]"
    and "episodeLengths a' = episodeLengths a @ [n]"
    and "currentEpisodeState a' = None" and "\<not> isPaused a'"
    and "isTraining a' = isTraining a"
    and "r_reward res = tot" and "r_steps res = n"
proof -
  from assms obtain a2 where
    rp: "replay (a\<lparr>currentEpisodeState := None, isPaused := False\<rparr>) isDDQN r = Some (a2, r')"
    and a': "a' = a2\<lparr>epsilon := max (epsilonMin a2) (epsilon a2 * epsilonDecay a2),
                    episodeRewards := episodeRewards a2 @ [tot],
                    episodeScores := episodeScores a2 @ [score (game (env a2))],
                    episodeLengths := episodeLengths a2 @ [n],
                    episode := episode a2 + 1\<rparr>"
    and res: "r_reward res = tot" "r_steps res = n"
    by (auto simp: finish_episode_def Let_def split: option.splits)
  note fr = replay_frame [OF rp]
  show "epsilon a' = max (epsilonMin a) (epsilon a * epsilonDecay a)"
    and "epsilonMin a' = epsilonMin a" and "epsilonDecay a' = epsilonDecay a"
    and "episode a' = episode a + 1"
    and "episodeRewards a' = episodeRewards a @ [tot]"
    and "episodeScores a' = episodeScores a @ [score (game (env a))]"
    and "episodeLengths a' = episodeLengths a @ [n]"
    and "currentEpisodeState a' = None" and "\<not> isPaused a'"
    and "isTraining a' = isTraining a"
    using fr by (simp_all add: a')
  show "r_reward res = tot" and "r_steps res = n"
    by (rule res)+
qed



lemma trainEpisode_paused:
  assumes "trainEpisode h isDDQN a r = Some (a1, r1, None)"
  shows "\<exists>b rb s d tot n.
           begin_episode isDDQN a r = Some (b, rb, s, d, tot, n)
           \<and> rollout h b rb s d tot n = Some (Paused a1 r1)"
  using assms
  by (auto simp: trainEpisode_def split: option.splits prod.splits loop_exit.splits)

lemma trainEpisode_completed:
  assumes "trainEpisode h isDDQN a r = Some (a3, r3, Some res)"
  shows "\<exists>b rb s d tot n a2 r2 s2 d2 tot2 n2.
           begin_episode isDDQN a r = Some (b, rb, s, d, tot, n)
           \<and> rollout h b rb s d tot n = Some (Ended a2 r2 s2 d2 tot2 n2)
           \<and> finish_episode isDDQN a2 r2 tot2 n2 = Some (a3, r3, res)"
  using assms
  by (auto simp: trainEpisode_def split: option.splits prod.splits loop_exit.splits)

section \<open>The loop of a resumed episode\<close>

lemma exit_vars_repause [simp]: "exit_vars (repause c p ex) = exit_vars ex"
  by (cases ex) simp_all



section \<open>A stop request in the middle of an episode\<close>

text \<open>
  C8. When the training has been stopped during the delay after a tick and the episode is
  not done, the loop is left at once with the snapshot of \<open>state\<close>, \<open>done\<close>,
  \<open>totalReward\<close> and \<open>steps\<close> saved and the pause flag set. And whenever \<open>trainEpisode\<close>
  returns \<open>null\<close>, the agent is paused with a snapshot of an episode that is not done, and
  nothing of the end of an episode has happened: the model is the one that the
  synchronisation of the target network at the start of the call has left, so that the
  network that \<open>update\<close> trains, with its weights and the state of its optimiser, is as
  before the call (no learning step), and \<open>epsilon\<close>, the three statistics arrays and the
  episode index are unchanged.
\<close>

theorem halt_mid_episode:
  "(isTraining b \<and> \<not> d \<and> n < maxSteps
      \<and> tick h b rb s tot = Some (a2, r2, s2, False, tot2) \<and> \<not> isTraining a2
    \<longrightarrow> rollout h b rb s d tot n =
          Some (Paused
                 (a2\<lparr>currentEpisodeState :=
                        Some \<lparr>es_state = s2, es_done = False, es_totalReward = tot2,
                              es_steps = n + 1\<rparr>,
                      isPaused := True\<rparr>) r2))
   \<and> (trainEpisode h isDDQN a r = Some (a', r', None)
      \<longrightarrow> isPaused a' \<and> \<not> isTraining a'
          \<and> (\<exists>snap. currentEpisodeState a' = Some snap \<and> \<not> es_done snap \<and> 0 < es_steps snap)
          \<and> model a' = model (sync_target isDDQN a)
          \<and> dqn_model (model a') = dqn_model (model a)
          \<and> epsilon a' = epsilon a
          \<and> episodeRewards a' = episodeRewards a
          \<and> episodeScores a' = episodeScores a
          \<and> episodeLengths a' = episodeLengths a
          \<and> episode a' = episode a)"
proof -
  have one: "rollout h b rb s d tot n =
          Some (Paused
                 (a2\<lparr>currentEpisodeState :=
                        Some \<lparr>es_state = s2, es_done = False, es_totalReward = tot2,
                              es_steps = n + 1\<rparr>,
                      isPaused := True\<rparr>) r2)"
    if "isTraining b \<and> \<not> d \<and> n < maxSteps
        \<and> tick h b rb s tot = Some (a2, r2, s2, False, tot2) \<and> \<not> isTraining a2"
    using rollout_unfold_pause [of d n b h rb s tot a2 r2 s2 False tot2] that by simp
  have two: "isPaused a' \<and> \<not> isTraining a'
          \<and> (\<exists>snap. currentEpisodeState a' = Some snap \<and> \<not> es_done snap \<and> 0 < es_steps snap)
          \<and> model a' = model (sync_target isDDQN a)
          \<and> dqn_model (model a') = dqn_model (model a)
          \<and> epsilon a' = epsilon a
          \<and> episodeRewards a' = episodeRewards a
          \<and> episodeScores a' = episodeScores a
          \<and> episodeLengths a' = episodeLengths a
          \<and> episode a' = episode a"
    if "trainEpisode h isDDQN a r = Some (a', r', None)"
  proof -
    from trainEpisode_paused [OF that] obtain b0 rb0 s0 d0 tot0 n0 where
      bg: "begin_episode isDDQN a r = Some (b0, rb0, s0, d0, tot0, n0)"
      and ro: "rollout h b0 rb0 s0 d0 tot0 n0 = Some (Paused a' r')"
      by blast
    note fb = begin_episode_frame [OF bg]
    from rollout_frame [OF ro] have same: "same_learning b0 a'"
      and ps: "isPaused a'" "\<not> isTraining a'"
      and sn: "\<exists>snap. currentEpisodeState a' = Some snap \<and> \<not> es_done snap \<and> n0 < es_steps snap"
      by simp_all
    have "model a' = model (sync_target isDDQN a)"
      using same fb(11) by (simp add: same_learning_def)
    moreover have "dqn_model (model a') = dqn_model (model a)"
      using same fb(11) by (simp add: same_learning_def sync_target_frame)
    moreover from sn have
      "\<exists>snap. currentEpisodeState a' = Some snap \<and> \<not> es_done snap \<and> 0 < es_steps snap"
      by auto
    ultimately show ?thesis
      using same fb ps by (simp add: same_learning_def)
  qed
  from one two show ?thesis
    by blast
qed

section \<open>A paused and resumed run\<close>

lemma run_paused: "trainEpisode first_tick False training0 half = Some (paused0, half, None)"
  by (simp add: paused0_def run_defs)



theorem halt_mid_episode_witness:
  "trainEpisode first_tick False training0 half = Some (paused0, half, None)
   \<and> isPaused paused0 \<and> \<not> isTraining paused0
   \<and> currentEpisodeState paused0
       = Some \<lparr>es_state = [1 / 8, 21 / 16, 1 / 64, 7 / 16], es_done = False,
               es_totalReward = 19 / 200, es_steps = 1\<rparr>
   \<and> epsilon paused0 = epsilon training0
   \<and> episode paused0 = episode training0
   \<and> episodeRewards paused0 = episodeRewards training0
   \<and> episodeScores paused0 = episodeScores training0
   \<and> episodeLengths paused0 = episodeLengths training0
   \<and> model paused0 = model (sync_target False training0)
   \<and> dqn_model (model paused0) = dqn_model (model training0)"
  using halt_mid_episode [where h = first_tick and isDDQN = False and a = training0
      and r = half and a' = paused0 and r' = half, THEN conjunct2] run_paused
  by (simp add: paused0_def)

section \<open>The effect of an episode on the pause state and on epsilon\<close>

lemma trainEpisode_effect:
  assumes "trainEpisode h isDDQN a r = Some (a', r', res)"
  shows "epsilonMin a' = epsilonMin a" and "epsilonDecay a' = epsilonDecay a"
    and "(currentEpisodeState a' \<noteq> None) = isPaused a'"
    and "isPaused a' = (res = None)"
    and "res = None \<Longrightarrow> epsilon a' = epsilon a \<and> episode a' = episode a"
    and "res \<noteq> None \<Longrightarrow>
           epsilon a' = max (epsilonMin a) (epsilon a * epsilonDecay a)
           \<and> episode a' = episode a + 1 \<and> currentEpisodeState a' = None"
proof -
  have "epsilonMin a' = epsilonMin a \<and> epsilonDecay a' = epsilonDecay a
        \<and> (currentEpisodeState a' \<noteq> None) = isPaused a'
        \<and> isPaused a' = (res = None)
        \<and> (res = None \<longrightarrow> epsilon a' = epsilon a \<and> episode a' = episode a)
        \<and> (res \<noteq> None \<longrightarrow>
              epsilon a' = max (epsilonMin a) (epsilon a * epsilonDecay a)
              \<and> episode a' = episode a + 1 \<and> currentEpisodeState a' = None)"
  proof (cases res)
    case None
    with assms trainEpisode_paused [of h isDDQN a r a' r'] obtain b rb s d tot n where
      bg: "begin_episode isDDQN a r = Some (b, rb, s, d, tot, n)"
      and ro: "rollout h b rb s d tot n = Some (Paused a' r')"
      by blast
    from rollout_frame [OF ro] begin_episode_frame [OF bg] None show ?thesis
      by (auto simp: same_learning_def)
  next
    case (Some x)
    with assms trainEpisode_completed [of h isDDQN a r a' r' x]
    obtain b rb s d tot n a2 r2 s2 d2 tot2 n2 where
      bg: "begin_episode isDDQN a r = Some (b, rb, s, d, tot, n)"
      and ro: "rollout h b rb s d tot n = Some (Ended a2 r2 s2 d2 tot2 n2)"
      and fi: "finish_episode isDDQN a2 r2 tot2 n2 = Some (a', r', x)"
      by blast
    from rollout_frame [OF ro] have "same_learning b a2"
      by simp
    with finish_episode_effect [OF fi] begin_episode_frame [OF bg] Some show ?thesis
      by (simp add: same_learning_def)
  qed
  then show "epsilonMin a' = epsilonMin a" and "epsilonDecay a' = epsilonDecay a"
    and "(currentEpisodeState a' \<noteq> None) = isPaused a'"
    and "isPaused a' = (res = None)"
    and "res = None \<Longrightarrow> epsilon a' = epsilon a \<and> episode a' = episode a"
    and "res \<noteq> None \<Longrightarrow>
           epsilon a' = max (epsilonMin a) (epsilon a * epsilonDecay a)
           \<and> episode a' = episode a + 1 \<and> currentEpisodeState a' = None"
    by blast+
qed

text \<open>
  The episodes that \<open>train\<close> runs: \<open>epsilon\<close> has been decayed once for each episode
  completed, and the pause state is consistent afterwards if it was before.
\<close>

lemma train_loop_effect:
  assumes "train_loop h isDDQN k a r = Some (a', r')"
  shows "epsilonMin a' = epsilonMin a \<and> epsilonDecay a' = epsilonDecay a
         \<and> episode a \<le> episode a'
         \<and> epsilon a' = ((\<lambda>e. max (epsilonMin a) (e * epsilonDecay a))
                            ^^ (episode a' - episode a)) (epsilon a)
         \<and> ((currentEpisodeState a \<noteq> None) = isPaused a
              \<longrightarrow> (currentEpisodeState a' \<noteq> None) = isPaused a')"
  using assms
proof (induction k arbitrary: a r)
  case 0
  then show ?case
    by simp
next
  case (Suc k)
  show ?case
  proof (cases "isTraining a")
    case False
    with Suc.prems show ?thesis
      by simp
  next
    case True
    with Suc.prems obtain b rb res where
      ep: "trainEpisode h isDDQN a r = Some (b, rb, res)"
      by (auto split: option.splits)
    note eff = trainEpisode_effect [OF ep]
    show ?thesis
    proof (cases res)
      case None
      with Suc.prems True ep have "a' = b"
        by simp
      with eff None show ?thesis
        by simp
    next
      case (Some x)
      with Suc.prems True ep have tl: "train_loop h isDDQN k b rb = Some (a', r')"
        by simp
      define f where "f = (\<lambda>e. max (epsilonMin a) (e * epsilonDecay a))"
      from Suc.IH [OF tl] eff Some
      have st: "epsilonMin a' = epsilonMin a" "epsilonDecay a' = epsilonDecay a"
        "episode b \<le> episode a'" "episode b = Suc (episode a)"
        "(currentEpisodeState a' \<noteq> None) = isPaused a'"
        and ev: "epsilon a' = (f ^^ (episode a' - episode b)) (f (epsilon a))"
        by (simp_all add: f_def)
      from st(3,4) have "episode a' - episode a = Suc (episode a' - episode b)"
        by simp
      with ev have "epsilon a' = (f ^^ (episode a' - episode a)) (epsilon a)"
        by (simp add: funpow_swap1)
      with st show ?thesis
        by (simp add: f_def)
    qed
  qed
qed

lemma decay_bounds:
  fixes mn e dc :: real
  assumes "0 \<le> mn" and "mn \<le> e" and "dc \<le> 1"
  shows "((\<lambda>e. max mn (e * dc)) ^^ k) e \<le> e \<and> mn \<le> ((\<lambda>e. max mn (e * dc)) ^^ k) e"
proof (induction k)
  case 0
  then show ?case
    using assms by simp
next
  case (Suc k)
  let ?x = "((\<lambda>e. max mn (e * dc)) ^^ k) e"
  from Suc have x: "?x \<le> e" "mn \<le> ?x"
    by simp_all
  have "0 \<le> ?x"
    using x(2) assms(1) by simp
  then have "?x * dc \<le> ?x"
    using assms(3) by (simp add: mult_left_le)
  with x show ?case
    by simp
qed

section \<open>Pausing and resuming an episode\<close>






text \<open>
  The condition on the schedule cannot be dropped, and the application does not ensure it.
  When the stop button is clicked during a delay, \<open>stopTraining\<close> finds the agent not yet
  paused and leaves \<open>isTrainingPaused\<close> false, so that until the timer fires the render loop
  takes the application for one in manual play and updates the game. With one such update
  in the first delay, the resumed episode is over after 11 ticks of the agent, not 12, with
  another total reward: the game has made a tick that the agent has not seen.
\<close>

lemma render_loop_interference:
  "map_option (snd \<circ> snd) (trainEpisode first_tick_render False training0 half) = Some None
   \<and> Option.bind (trainEpisode first_tick_render False training0 half)
         (\<lambda>(a1, r1, res).
            map_option exit_vars (episode_loop never False (a1\<lparr>isTraining := True\<rparr>) r1))
       = Some (Some (- (5803 / 400), 11, True))
   \<and> map_option exit_vars (episode_loop never False training0 half)
       = Some (Some (- (1441 / 100), 12, True))"
  by (simp add: episode_loop_def first_tick_render_def run_defs)

section \<open>The saved episode state and the pause flag\<close>

text \<open>
  C2, as the code has it. When a call of the agent returns, a saved episode state is
  non-null exactly when the agent is paused: after construction and after \<open>reset()\<close> both
  are cleared, after \<open>trainEpisode\<close> both are set if it returned \<open>null\<close> and both are
  cleared if the episode completed, and \<open>train\<close> keeps the two consistent. The saved episode
  state is cleared when the episode completes, not when it resumes: on resume only the
  pause flag is cleared, and the ticks of the resumed episode leave both as they are, so
  that the saved state stays non-null, with the agent not paused, until the episode
  completes or is paused again.
\<close>

theorem saved_state_and_pause:
  "currentEpisodeState (Agent e m c) = None \<and> \<not> isPaused (Agent e m c)
   \<and> currentEpisodeState (agent_reset a) = None \<and> \<not> isPaused (agent_reset a)
   \<and> (trainEpisode h isDDQN a r = Some (a', r', res)
        \<longrightarrow> (currentEpisodeState a' \<noteq> None) = isPaused a'
            \<and> isPaused a' = (res = None))
   \<and> ((currentEpisodeState a \<noteq> None) = isPaused a
        \<and> train h k isDDQN delay a r = Some (a'', r'')
        \<longrightarrow> (currentEpisodeState a'' \<noteq> None) = isPaused a'')
   \<and> (currentEpisodeState a = Some saved \<and> isPaused a
        \<longrightarrow> (\<exists>b. begin_episode isDDQN a r
                     = Some (b, r, es_state saved, es_done saved, es_totalReward saved,
                             es_steps saved)
                 \<and> currentEpisodeState b = Some saved \<and> \<not> isPaused b))
   \<and> (tick h a r s tot = Some (b', rb, s', d', tot')
        \<longrightarrow> currentEpisodeState b' = currentEpisodeState a \<and> isPaused b' = isPaused a)"
proof -
  have one: "(currentEpisodeState a' \<noteq> None) = isPaused a' \<and> isPaused a' = (res = None)"
    if "trainEpisode h isDDQN a r = Some (a', r', res)"
    using trainEpisode_effect(3,4) [OF that] by simp
  have two: "(currentEpisodeState a'' \<noteq> None) = isPaused a''"
    if "(currentEpisodeState a \<noteq> None) = isPaused a"
      and "train h k isDDQN delay a r = Some (a'', r'')"
  proof -
    from that(2) obtain x where
      lp: "train_loop h isDDQN k (a\<lparr>isTraining := True, trainingDelay := Some delay\<rparr>) r
             = Some (x, r'')"
      and x: "a'' = x\<lparr>isTraining := False\<rparr>"
      by (auto simp: train_def split: option.splits)
    from train_loop_effect [OF lp] that(1) x show ?thesis
      by simp
  qed
  have three: "\<exists>b. begin_episode isDDQN a r
                     = Some (b, r, es_state saved, es_done saved, es_totalReward saved,
                             es_steps saved)
                 \<and> currentEpisodeState b = Some saved \<and> \<not> isPaused b"
    if "currentEpisodeState a = Some saved \<and> isPaused a"
    using begin_episode_resume [of a saved isDDQN r] that by (simp add: sync_target_frame)
  have four: "currentEpisodeState b' = currentEpisodeState a \<and> isPaused b' = isPaused a"
    if "tick h a r s tot = Some (b', rb, s', d', tot')"
    using tick_frame(2,3) [OF that] by simp
  have five: "currentEpisodeState (Agent e m c) = None \<and> \<not> isPaused (Agent e m c)
   \<and> currentEpisodeState (agent_reset a) = None \<and> \<not> isPaused (agent_reset a)"
    by (simp add: Agent_def agent_reset_def)
  from one two three four five show ?thesis
    by blast
qed

theorem saved_state_and_pause_witness:
  "trainEpisode first_tick False training0 half = Some (paused0, half, None)
   \<and> isPaused paused0 \<and> currentEpisodeState paused0 \<noteq> None
   \<and> map_option (isPaused \<circ> fst) (trainEpisode never False training0 half) = Some False
   \<and> map_option (currentEpisodeState \<circ> fst) (trainEpisode never False training0 half)
       = Some None"
proof -
  have fin: "map_option (isPaused \<circ> fst) (trainEpisode never False training0 half) = Some False
      \<and> map_option (currentEpisodeState \<circ> fst) (trainEpisode never False training0 half)
          = Some None"
    by (simp add: run_defs)
  from saved_state_and_pause [where h = first_tick and isDDQN = False and a = training0
      and r = half and a' = paused0 and r' = half and res = None,
      THEN conjunct2, THEN conjunct2, THEN conjunct2, THEN conjunct2, THEN conjunct1]
    run_paused
  have "isPaused paused0 \<and> currentEpisodeState paused0 \<noteq> None"
    by simp
  with run_paused fin show ?thesis
    by simp
qed

text \<open>
  The claim as stated fails. The training is stopped during the first delay, which leaves
  the agent \<open>paused0\<close>; \<open>train\<close> then switches the training on again and \<open>trainEpisode\<close>
  resumes. At the start of the resumed loop, and still after its first tick, the saved
  episode state is the snapshot taken at the pause, and the agent is not paused.
\<close>

theorem saved_state_and_pause_counterexample:
  "trainEpisode first_tick False training0 half = Some (paused0, half, None)
   \<and> map_option (isPaused \<circ> fst) (begin_episode False (paused0\<lparr>isTraining := True\<rparr>) half)
       = Some False
   \<and> map_option (currentEpisodeState \<circ> fst)
         (begin_episode False (paused0\<lparr>isTraining := True\<rparr>) half)
       = Some (Some \<lparr>es_state = [1 / 8, 21 / 16, 1 / 64, 7 / 16], es_done = False,
                     es_totalReward = 19 / 200, es_steps = 1\<rparr>)
   \<and> map_option (isPaused \<circ> fst)
         (tick never (paused0\<lparr>isTraining := True, isPaused := False\<rparr>) half
            [1 / 8, 21 / 16, 1 / 64, 7 / 16] (19 / 200))
       = Some False
   \<and> map_option (currentEpisodeState \<circ> fst)
         (tick never (paused0\<lparr>isTraining := True, isPaused := False\<rparr>) half
            [1 / 8, 21 / 16, 1 / 64, 7 / 16] (19 / 200))
       = Some (Some \<lparr>es_state = [1 / 8, 21 / 16, 1 / 64, 7 / 16], es_done = False,
                     es_totalReward = 19 / 200, es_steps = 1\<rparr>)"
proof (intro conjI)
  show "trainEpisode first_tick False training0 half = Some (paused0, half, None)"
    by (rule run_paused)
qed (simp_all add: paused0_def run_defs)

section \<open>The decay of epsilon\<close>

text \<open>
  C9, as the code has it. With \<open>epsilon\<close> not modified from outside: every completed
  episode updates \<open>epsilon\<close> to \<open>max(epsilonMin, epsilon * epsilonDecay)\<close>, which is at least
  \<open>epsilonMin\<close>, and a paused one leaves it alone, so that after \<open>train\<close> it has been
  decayed once for each episode completed. If moreover \<open>epsilonMin\<close> is not negative, the
  initial \<open>epsilon\<close> is at least \<open>epsilonMin\<close> and \<open>epsilonDecay\<close> is at most 1, then
  \<open>epsilon\<close> never increases and stays at least \<open>epsilonMin\<close>.
\<close>

theorem epsilon_decay:
  "(trainEpisode h isDDQN a r = Some (a', r', Some res)
      \<longrightarrow> epsilon a' = max (epsilonMin a) (epsilon a * epsilonDecay a)
          \<and> epsilonMin a \<le> epsilon a'
          \<and> epsilonMin a' = epsilonMin a \<and> epsilonDecay a' = epsilonDecay a)
   \<and> (trainEpisode h isDDQN a r = Some (a', r', None) \<longrightarrow> epsilon a' = epsilon a)
   \<and> (train h k isDDQN delay a r = Some (a'', r'')
      \<longrightarrow> epsilon a'' = ((\<lambda>e. max (epsilonMin a) (e * epsilonDecay a))
                           ^^ (episode a'' - episode a)) (epsilon a)
          \<and> epsilonMin a'' = epsilonMin a \<and> epsilonDecay a'' = epsilonDecay a)
   \<and> (0 \<le> epsilonMin a \<and> epsilonMin a \<le> epsilon a \<and> epsilonDecay a \<le> 1
        \<and> trainEpisode h isDDQN a r = Some (a', r', Some res)
      \<longrightarrow> epsilon a' \<le> epsilon a)
   \<and> (0 \<le> epsilonMin a \<and> epsilonMin a \<le> epsilon a \<and> epsilonDecay a \<le> 1
        \<and> train h k isDDQN delay a r = Some (a'', r'')
      \<longrightarrow> epsilon a'' \<le> epsilon a \<and> epsilonMin a \<le> epsilon a'')"
proof -
  have one: "epsilon a' = max (epsilonMin a) (epsilon a * epsilonDecay a)
          \<and> epsilonMin a \<le> epsilon a'
          \<and> epsilonMin a' = epsilonMin a \<and> epsilonDecay a' = epsilonDecay a"
    if "trainEpisode h isDDQN a r = Some (a', r', Some res)"
    using trainEpisode_effect(1,2,6) [OF that] by simp
  have two: "epsilon a' = epsilon a" if "trainEpisode h isDDQN a r = Some (a', r', None)"
    using trainEpisode_effect(5) [OF that] by simp
  have three: "epsilon a'' = ((\<lambda>e. max (epsilonMin a) (e * epsilonDecay a))
                           ^^ (episode a'' - episode a)) (epsilon a)
          \<and> epsilonMin a'' = epsilonMin a \<and> epsilonDecay a'' = epsilonDecay a"
    if "train h k isDDQN delay a r = Some (a'', r'')"
  proof -
    from that obtain x where
      lp: "train_loop h isDDQN k (a\<lparr>isTraining := True, trainingDelay := Some delay\<rparr>) r
             = Some (x, r'')"
      and x: "a'' = x\<lparr>isTraining := False\<rparr>"
      by (auto simp: train_def split: option.splits)
    from train_loop_effect [OF lp] x show ?thesis
      by simp
  qed
  have four: "epsilon a' \<le> epsilon a"
    if "0 \<le> epsilonMin a \<and> epsilonMin a \<le> epsilon a \<and> epsilonDecay a \<le> 1
        \<and> trainEpisode h isDDQN a r = Some (a', r', Some res)"
    using one that decay_bounds [of "epsilonMin a" "epsilon a" "epsilonDecay a" 1]
    by simp
  have five: "epsilon a'' \<le> epsilon a \<and> epsilonMin a \<le> epsilon a''"
    if "0 \<le> epsilonMin a \<and> epsilonMin a \<le> epsilon a \<and> epsilonDecay a \<le> 1
        \<and> train h k isDDQN delay a r = Some (a'', r'')"
    using three that
      decay_bounds [of "epsilonMin a" "epsilon a" "epsilonDecay a" "episode a'' - episode a"]
    by simp
  from one two three four five show ?thesis
    by blast
qed

theorem epsilon_decay_witness:
  "0 \<le> epsilonMin agent0 \<and> epsilonMin agent0 \<le> epsilon agent0 \<and> epsilonDecay agent0 \<le> 1
   \<and> epsilon agent0 = 3 / 10
   \<and> map_option (episode \<circ> fst) (train never 1 False 0 agent0 half) = Some 1
   \<and> map_option (epsilon \<circ> fst) (train never 1 False 0 agent0 half) = Some (5997 / 20000)
   \<and> (5997 / 20000 :: real) \<le> 3 / 10"
proof -
  have hyps: "0 \<le> epsilonMin agent0 \<and> epsilonMin agent0 \<le> epsilon agent0
      \<and> epsilonDecay agent0 \<le> 1 \<and> epsilon agent0 = 3 / 10"
    by (simp add: agent0_def Agent_def js_or_def app_config_def)
  have run: "map_option (episode \<circ> fst) (train never 1 False 0 agent0 half) = Some 1
      \<and> map_option (epsilon \<circ> fst) (train never 1 False 0 agent0 half) = Some (5997 / 20000)"
    by (simp add: run_defs)
  then obtain x rx where rx: "train never 1 False 0 agent0 half = Some (x, rx)"
    by (cases "train never 1 False 0 agent0 half") auto
  from epsilon_decay [where h = never and k = 1 and isDDQN = False and delay = 0
      and a = agent0 and r = half and a'' = x and r'' = rx,
      THEN conjunct2, THEN conjunct2, THEN conjunct2, THEN conjunct2] hyps rx
  have "epsilon x \<le> epsilon agent0"
    by simp
  with hyps run rx show ?thesis
    by simp
qed

text \<open>
  The claim as stated fails when \<open>epsilonMin\<close> is negative. The agent is configured with
  \<open>epsilon = -1\<close>, \<open>epsilonMin = -2\<close> and \<open>epsilonDecay = 0.5\<close>, so that the initial
  \<open>epsilon\<close> is at least \<open>epsilonMin\<close> and \<open>epsilonDecay\<close> is at most 1; the first completed
  episode raises \<open>epsilon\<close> from -1 to -0.5.
\<close>

theorem epsilon_decay_counterexample:
  "epsilon (Agent env0 flat_model negative_config) = - 1
   \<and> epsilonMin (Agent env0 flat_model negative_config) = - 2
   \<and> epsilonDecay (Agent env0 flat_model negative_config) = 1 / 2
   \<and> map_option (episode \<circ> fst)
         (train never 1 False 0
            (Agent env0 flat_model negative_config) half) = Some 1
   \<and> map_option (epsilon \<circ> fst)
         (train never 1 False 0
            (Agent env0 flat_model negative_config) half)
       = Some (- (1 / 2))"
  by (simp add: negative_config_def run_defs)

end
